theory Spec2Isabelle
  imports Main
begin

section \<open>Strings and the JavaScript string methods used by aqua.ts\<close>

text \<open>
  A string is the list of the bytes of its UTF-8 encoding: an ASCII character is one
  byte, any other character two to four. JavaScript counts a string in UTF-16 code
  units; \<open>units\<close> below cuts the bytes into the pieces that stand for one code unit
  each, and the regular expressions step through a string unit by unit. Splitting and
  searching for ASCII text or for a whole string give the same result on the bytes.
\<close>

datatype error =
    TypeError
  | URIError
  | Error string
  | Thrown string
  | Unmodelled string

text \<open>
  \<open>TypeError\<close> is a property access on \<open>null\<close>/\<open>undefined\<close>, the call of a value
  that is not a function, or an illegal name or value given to \<open>Headers\<close>; \<open>URIError\<close>
  is raised by \<open>decodeURIComponent\<close>, \<open>Error m\<close> is \<open>throw Error(m)\<close> of the source, \<open>Thrown v\<close>
  is whatever a handler or middleware of the application throws (or the rejection of the
  promise it returns). \<open>Unmodelled\<close> is not an exception of the program: it marks a run
  that builds a regular expression from a template outside the fragment modelled in
  section \<open>Regular expressions\<close>, or that puts a method name with a character outside
  ASCII in upper case; nothing is claimed about such a run.
\<close>

definition str_includes :: "string \<Rightarrow> char \<Rightarrow> bool" where
  "str_includes s c = (c \<in> set s)"

fun startsWith :: "string \<Rightarrow> string \<Rightarrow> bool" where
  "startsWith s [] = True"
| "startsWith [] (p # ps) = False"
| "startsWith (x # xs) (p # ps) = (x = p \<and> startsWith xs ps)"

text \<open>\<open>s.split(c)\<close> for a separator of one character. The array is never empty.\<close>

fun split_on :: "char \<Rightarrow> string \<Rightarrow> string list" where
  "split_on c [] = [[]]"
| "split_on c (x # xs) =
     (if x = c then [] # split_on c xs
      else (case split_on c xs of
              [] \<Rightarrow> [[x]]
            | piece # pieces \<Rightarrow> (x # piece) # pieces))"

text \<open>\<open>a[i]\<close> on an array: \<open>undefined\<close> (here \<open>None\<close>) out of range.\<close>

fun at_index :: "'a list \<Rightarrow> nat \<Rightarrow> 'a option" where
  "at_index [] i = None"
| "at_index (x # xs) 0 = Some x"
| "at_index (x # xs) (Suc i) = at_index xs i"

text \<open>
  \<open>s.split(sep)[0]\<close> for a separator string: the part of \<open>s\<close> before the first
  occurrence of \<open>sep\<close>, all of \<open>s\<close> when there is none. (The source only calls it with a
  separator that starts with a colon, so the empty separator does not arise.)
\<close>

fun split_first :: "string \<Rightarrow> string \<Rightarrow> string" where
  "split_first sep [] = []"
| "split_first sep (x # xs) =
     (if startsWith (x # xs) sep then [] else x # split_first sep xs)"

text \<open>
  \<open>s.replace(pat, "")\<close> for a pattern that is a string: the first occurrence of \<open>pat\<close>
  is removed.
\<close>

fun remove_first :: "string \<Rightarrow> string \<Rightarrow> string" where
  "remove_first pat [] = []"
| "remove_first pat (x # xs) =
     (if startsWith (x # xs) pat then drop (length pat) (x # xs)
      else x # remove_first pat xs)"

text \<open>
  The bytes of one UTF-16 code unit, by the first byte: one byte for ASCII, two or three
  for the other characters of the basic plane; a character beyond it is two code units
  (a surrogate pair), here the first two and the last two of its four bytes. The bytes
  after the first are continuation bytes, so an ASCII byte is always a unit of its own.
\<close>

definition ascii_char :: "char \<Rightarrow> bool" where
  "ascii_char c = (\<not> digit7 c)"

definition ascii :: "string \<Rightarrow> bool" where
  "ascii s = list_all ascii_char s"

definition continuation :: "char \<Rightarrow> bool" where
  "continuation c = (digit7 c \<and> \<not> digit6 c)"

definition unit_len :: "char \<Rightarrow> nat" where
  "unit_len c =
     (if \<not> digit7 c then 1
      else if \<not> digit6 c then 2
      else if \<not> digit5 c then 2
      else if \<not> digit4 c then 3
      else 2)"

definition unit_rest :: "char \<Rightarrow> string \<Rightarrow> string" where
  "unit_rest x xs = takeWhile continuation (take (unit_len x - 1) xs)"

function units :: "string \<Rightarrow> string list" where
  "units [] = []"
| "units (x # xs) = (x # unit_rest x xs) # units (drop (length (unit_rest x xs)) xs)"
  by pat_completeness auto
termination
  by (relation "measure length") auto

text \<open>
  \<open>trimLeft\<close> removes the leading white space and line terminators of ECMAScript:
  tab, line feed, vertical tab, form feed, carriage return, space, U+00A0, U+1680,
  U+2000 to U+200A, U+2028, U+2029, U+202F, U+205F, U+3000 and U+FEFF.
\<close>

definition space_units :: "string list" where
  "space_units =
     [[CHR 0x09], [CHR 0x0A], [CHR 0x0B], [CHR 0x0C], [CHR 0x0D], [CHR 0x20],
      [CHR 0xC2, CHR 0xA0], [CHR 0xE1, CHR 0x9A, CHR 0x80],
      [CHR 0xE2, CHR 0x80, CHR 0x80], [CHR 0xE2, CHR 0x80, CHR 0x81],
      [CHR 0xE2, CHR 0x80, CHR 0x82], [CHR 0xE2, CHR 0x80, CHR 0x83],
      [CHR 0xE2, CHR 0x80, CHR 0x84], [CHR 0xE2, CHR 0x80, CHR 0x85],
      [CHR 0xE2, CHR 0x80, CHR 0x86], [CHR 0xE2, CHR 0x80, CHR 0x87],
      [CHR 0xE2, CHR 0x80, CHR 0x88], [CHR 0xE2, CHR 0x80, CHR 0x89],
      [CHR 0xE2, CHR 0x80, CHR 0x8A], [CHR 0xE2, CHR 0x80, CHR 0xA8],
      [CHR 0xE2, CHR 0x80, CHR 0xA9], [CHR 0xE2, CHR 0x80, CHR 0xAF],
      [CHR 0xE2, CHR 0x81, CHR 0x9F], [CHR 0xE3, CHR 0x80, CHR 0x80],
      [CHR 0xEF, CHR 0xBB, CHR 0xBF]]"

definition trimLeft :: "string \<Rightarrow> string" where
  "trimLeft s = concat (dropWhile (\<lambda>u. u \<in> set space_units) (units s))"

text \<open>
  \<open>toUpperCase\<close> on ASCII text. (Outside ASCII, JavaScript's mapping can even give
  ASCII letters; the request loop below takes a method with a character outside ASCII
  as outside the model.)
\<close>

definition upper_char :: "char \<Rightarrow> char" where
  "upper_char c =
     (case map_of (zip ''abcdefghijklmnopqrstuvwxyz'' ''ABCDEFGHIJKLMNOPQRSTUVWXYZ'') c of
        None \<Rightarrow> c
      | Some u \<Rightarrow> u)"

definition toUpperCase :: "string \<Rightarrow> string" where
  "toUpperCase s = map upper_char s"

text \<open>
  A JavaScript object used as a dictionary from strings: its own entries in the order
  of insertion. Writing an existing key keeps its place. \<open>Object.keys\<close>,
  \<open>Object.values\<close> and \<open>Object.entries\<close> enumerate the keys that are array indices
  first, in ascending order, and then the other keys in the order of insertion.
\<close>

type_synonym 'v obj = "(string \<times> 'v) list"

fun obj_set :: "string \<Rightarrow> 'v \<Rightarrow> 'v obj \<Rightarrow> 'v obj" where
  "obj_set k v [] = [(k, v)]"
| "obj_set k v ((k', v') # kvs) =
     (if k' = k then (k, v) # kvs else (k', v') # obj_set k v kvs)"

text \<open>
  An array index is the decimal numeral, without leading zeros, of a number below
  4294967295.
\<close>

definition decimal :: "string \<Rightarrow> nat" where
  "decimal k = foldl (\<lambda>n c. 10 * n + (of_char c - 48)) 0 k"

definition array_index :: "string \<Rightarrow> nat option" where
  "array_index k =
     (if k \<noteq> [] \<and> list_all (\<lambda>c. c \<in> set ''0123456789'') k \<and>
         (k = ''0'' \<or> hd k \<noteq> CHR ''0'') \<and> decimal k < 4294967295
      then Some (decimal k) else None)"

definition own_entries :: "'v obj \<Rightarrow> (string \<times> 'v) list" where
  "own_entries ob =
     sort_key (\<lambda>entry. decimal (fst entry)) (filter (\<lambda>entry. array_index (fst entry) \<noteq> None) ob) @
     filter (\<lambda>entry. array_index (fst entry) = None) ob"

text \<open>
  Reading \<open>ob[k]\<close>. The objects of aqua.ts are created as \<open>{}\<close>, so a key that is not
  an own entry still finds the members inherited from \<open>Object.prototype\<close>: each of them
  is a function, and \<open>__proto__\<close> is the prototype object itself. Such a value is
  truthy and has none of the properties of an entry.
\<close>

datatype 'v lookup = Own 'v | Inherited | Absent

definition prototype_members :: "string list" where
  "prototype_members =
     [''__proto__'', ''constructor'', ''hasOwnProperty'', ''isPrototypeOf'',
      ''propertyIsEnumerable'', ''toLocaleString'', ''toString'', ''valueOf'',
      ''__defineGetter__'', ''__defineSetter__'', ''__lookupGetter__'',
      ''__lookupSetter__'']"

definition obj_get :: "'v obj \<Rightarrow> string \<Rightarrow> 'v lookup" where
  "obj_get ob k =
     (case map_of ob k of
        Some v \<Rightarrow> Own v
      | None \<Rightarrow> (if k \<in> set prototype_members then Inherited else Absent))"

definition obj_values :: "'v obj \<Rightarrow> 'v list" where
  "obj_values ob = map snd (own_entries ob)"

section \<open>Regular expressions\<close>

text \<open>
  The regular expressions of aqua.ts outside \<open>parseBody\<close> use literal characters, the
  classes \<open>.\<close>, \<open>[a-zA-Z0-9_]\<close>, \<open>[a-zA-Z]\<close> and \<open>[^\/]\<close>, the greedy and the lazy
  star, \<open>$\<close> and one lookahead. None has the \<open>u\<close> flag: a pattern item matches one
  UTF-16 code unit, so the engine works on the list of the units of a string.
  \<open>.\<close> matches every unit but the line terminators: line feed, carriage return, U+2028
  and U+2029. A literal character is an ASCII character.
  \<open>rx_here p us\<close> is the backtracking match of the pattern \<open>p\<close> at the start of \<open>us\<close>:
  the rest of the input after the match that the engine finds first, or \<open>None\<close>.
  Capture groups are left out: no result of the source reads one.
\<close>

datatype cls = Ch char | Dot | Word | Alpha | NotSlash

datatype rx = One cls | Star cls | LazyStar cls | End | Ahead "rx list"

definition word_chars :: string where
  "word_chars = ''abcdefghijklmnopqrstuvwxyzABCDEFGHIJKLMNOPQRSTUVWXYZ0123456789_''"

definition alpha_chars :: string where
  "alpha_chars = ''abcdefghijklmnopqrstuvwxyzABCDEFGHIJKLMNOPQRSTUVWXYZ''"

definition line_terminators :: "string list" where
  "line_terminators =
     [[CHR 0x0A], [CHR 0x0D], [CHR 0xE2, CHR 0x80, CHR 0xA8], [CHR 0xE2, CHR 0x80, CHR 0xA9]]"

fun in_cls :: "cls \<Rightarrow> string \<Rightarrow> bool" where
  "in_cls (Ch c) u = (u = [c])"
| "in_cls Dot u = (u \<notin> set line_terminators)"
| "in_cls Word u = (\<exists>x \<in> set word_chars. u = [x])"
| "in_cls Alpha u = (\<exists>x \<in> set alpha_chars. u = [x])"
| "in_cls NotSlash u = (u \<noteq> ''/'')"

function rx_here :: "rx list \<Rightarrow> string list \<Rightarrow> string list option" where
  "rx_here [] us = Some us"
| "rx_here (One k # p) [] = None"
| "rx_here (One k # p) (u # us) = (if in_cls k u then rx_here p us else None)"
| "rx_here (Star k # p) [] = rx_here p []"
| "rx_here (Star k # p) (u # us) =
     (if in_cls k u
      then (case rx_here (Star k # p) us of
              Some r \<Rightarrow> Some r
            | None \<Rightarrow> rx_here p (u # us))
      else rx_here p (u # us))"
| "rx_here (LazyStar k # p) [] = rx_here p []"
| "rx_here (LazyStar k # p) (u # us) =
     (case rx_here p (u # us) of
        Some r \<Rightarrow> Some r
      | None \<Rightarrow> (if in_cls k u then rx_here (LazyStar k # p) us else None))"
| "rx_here (End # p) us = (if us = [] then rx_here p us else None)"
| "rx_here (Ahead q # p) us =
     (case rx_here q us of None \<Rightarrow> None | Some _ \<Rightarrow> rx_here p us)"
  by pat_completeness auto
termination
  by (relation "measure (\<lambda>(p, us). size_list size p + length us)") auto

text \<open>\<open>s.replace(re, repl)\<close> without the \<open>g\<close> flag: the leftmost match is replaced.\<close>

fun replace_units :: "rx list \<Rightarrow> string \<Rightarrow> string list \<Rightarrow> string" where
  "replace_units p repl [] = (case rx_here p [] of Some r \<Rightarrow> repl | None \<Rightarrow> [])"
| "replace_units p repl (u # us) =
     (case rx_here p (u # us) of
        Some r \<Rightarrow> repl @ concat r
      | None \<Rightarrow> u @ replace_units p repl us)"

definition rx_replace :: "rx list \<Rightarrow> string \<Rightarrow> string \<Rightarrow> string" where
  "rx_replace p repl s = replace_units p repl (units s)"

text \<open>
  With the \<open>g\<close> flag every match is replaced, the search going on after each match
  (one unit further after an empty match).
\<close>

function replace_all_units :: "rx list \<Rightarrow> string \<Rightarrow> string list \<Rightarrow> string" where
  "replace_all_units p repl [] = (case rx_here p [] of Some r \<Rightarrow> repl | None \<Rightarrow> [])"
| "replace_all_units p repl (u # us) =
     (case rx_here p (u # us) of
        Some r \<Rightarrow>
          (if length r < length (u # us) then repl @ replace_all_units p repl r
           else repl @ u @ replace_all_units p repl us)
      | None \<Rightarrow> u @ replace_all_units p repl us)"
  by pat_completeness auto
termination
  by (relation "measure (\<lambda>(p, repl, us). length us)") auto

definition rx_replace_all :: "rx list \<Rightarrow> string \<Rightarrow> string \<Rightarrow> string" where
  "rx_replace_all p repl s = replace_all_units p repl (units s)"

text \<open>
  \<open>s.match(re)\<close> with the \<open>g\<close> flag: the matched texts from left to right, \<open>null\<close>
  (here \<open>None\<close>) when there is none.
\<close>

function matches_units :: "rx list \<Rightarrow> string list \<Rightarrow> string list" where
  "matches_units p [] = (case rx_here p [] of Some r \<Rightarrow> [[]] | None \<Rightarrow> [])"
| "matches_units p (u # us) =
     (case rx_here p (u # us) of
        Some r \<Rightarrow>
          (if length r < length (u # us)
           then concat (take (length (u # us) - length r) (u # us)) # matches_units p r
           else [] # matches_units p us)
      | None \<Rightarrow> matches_units p us)"
  by pat_completeness auto
termination
  by (relation "measure (\<lambda>(p, us). length us)") auto

definition match_g :: "string \<Rightarrow> rx list \<Rightarrow> string list option" where
  "match_g s p = (case matches_units p (units s) of [] \<Rightarrow> None | ms \<Rightarrow> Some ms)"

text \<open>\<open>re.test(s)\<close>: is there a match anywhere in \<open>s\<close>.\<close>

fun test_units :: "rx list \<Rightarrow> string list \<Rightarrow> bool" where
  "test_units p [] = (rx_here p [] \<noteq> None)"
| "test_units p (u # us) = (rx_here p (u # us) \<noteq> None \<or> test_units p us)"

definition rx_test :: "rx list \<Rightarrow> string \<Rightarrow> bool" where
  "rx_test p s = test_units p (units s)"

text \<open>
  \<open>new RegExp(src)\<close> for a pattern built at run time. The fragment read here is the
  one the source builds from a route template: ordinary ASCII characters, \<open>.\<close>, the
  lazy \<open>.*?\<close> and the group \<open>([^/]*)\<close>. Any other use of a character that is special
  in a regular expression, and any character outside ASCII, gives \<open>None\<close>: the pattern
  is outside the model.
\<close>

definition special_chars :: string where
  "special_chars = CHR 0x5C # ''^$.*+?()[]{}|''"

function RegExp :: "string \<Rightarrow> rx list option" where
  "RegExp [] = Some []"
| "RegExp (c # cs) =
     (if startsWith (c # cs) ''.*?''
      then map_option ((#) (LazyStar Dot)) (RegExp (drop 3 (c # cs)))
      else if startsWith (c # cs) ''([^/]*)''
      then map_option ((#) (Star NotSlash)) (RegExp (drop 7 (c # cs)))
      else if c = CHR ''.'' then map_option ((#) (One Dot)) (RegExp cs)
      else if c \<in> set special_chars \<or> \<not> ascii_char c then None
      else map_option ((#) (One (Ch c))) (RegExp cs))"
  by pat_completeness auto
termination
  by (relation "measure length") auto

section \<open>Request parsing\<close>

text \<open>
  \<open>decodeURIComponent\<close>: every \<open>%XX\<close> becomes the byte \<open>XX\<close>; a \<open>%\<close> without
  two hexadecimal digits, or escaped bytes that are not well-formed UTF-8, raise
  \<open>URIError\<close>.
\<close>

datatype tok = Raw char | Esc nat

definition hexval :: "char \<Rightarrow> nat option" where
  "hexval c = map_of (zip ''0123456789abcdefABCDEF''
                      [0, 1, 2, 3, 4, 5, 6, 7, 8, 9, 10, 11, 12, 13, 14, 15, 10, 11, 12, 13, 14, 15]) c"

fun pct_tokens :: "string \<Rightarrow> tok list option" where
  "pct_tokens [] = Some []"
| "pct_tokens (c # s) =
     (if c \<noteq> CHR ''%'' then map_option ((#) (Raw c)) (pct_tokens s)
      else (case s of
              h1 # h2 # rest \<Rightarrow>
                (case (hexval h1, hexval h2) of
                   (Some a, Some b) \<Rightarrow> map_option ((#) (Esc (16 * a + b))) (pct_tokens rest)
                 | _ \<Rightarrow> None)
            | _ \<Rightarrow> None))"

text \<open>
  \<open>utf8_ok n lo hi ts\<close>: the escaped bytes of \<open>ts\<close> are well-formed UTF-8, given that
  \<open>n\<close> continuation bytes are still due and the next one lies in \<open>lo..hi\<close>.
\<close>

fun utf8_ok :: "nat \<Rightarrow> nat \<Rightarrow> nat \<Rightarrow> tok list \<Rightarrow> bool" where
  "utf8_ok 0 lo hi [] = True"
| "utf8_ok (Suc n) lo hi [] = False"
| "utf8_ok 0 lo hi (Raw c # ts) = utf8_ok 0 0 0 ts"
| "utf8_ok (Suc n) lo hi (Raw c # ts) = False"
| "utf8_ok 0 lo hi (Esc b # ts) =
     (if b < 0x80 then utf8_ok 0 0 0 ts
      else if 0xC2 \<le> b \<and> b \<le> 0xDF then utf8_ok 1 0x80 0xBF ts
      else if b = 0xE0 then utf8_ok 2 0xA0 0xBF ts
      else if b = 0xED then utf8_ok 2 0x80 0x9F ts
      else if 0xE1 \<le> b \<and> b \<le> 0xEF then utf8_ok 2 0x80 0xBF ts
      else if b = 0xF0 then utf8_ok 3 0x90 0xBF ts
      else if 0xF1 \<le> b \<and> b \<le> 0xF3 then utf8_ok 3 0x80 0xBF ts
      else if b = 0xF4 then utf8_ok 3 0x80 0x8F ts
      else False)"
| "utf8_ok (Suc n) lo hi (Esc b # ts) = (lo \<le> b \<and> b \<le> hi \<and> utf8_ok n 0x80 0xBF ts)"

fun tok_char :: "tok \<Rightarrow> char" where
  "tok_char (Raw c) = c"
| "tok_char (Esc b) = char_of b"

definition decodeURIComponent :: "string \<Rightarrow> error + string" where
  "decodeURIComponent s =
     (case pct_tokens s of
        None \<Rightarrow> Inl URIError
      | Some ts \<Rightarrow> (if utf8_ok 0 0 0 ts then Inr (map tok_char ts) else Inl URIError))"

text \<open>
  \<open>parseQuery\<close> (aqua.ts, lines 139-152). \<open>query.split("=")?.[1]\<close> is the text between
  the first and the second \<open>=\<close>, \<open>undefined\<close> when the pair has no \<open>=\<close>.
\<close>

definition parseQuery_step :: "string obj \<Rightarrow> string \<Rightarrow> error + string obj" where
  "parseQuery_step queries query =
     (if query = [] then Inr queries
      else (case at_index (split_on CHR ''='' query) 0 of
              None \<Rightarrow> Inr queries
            | Some k \<Rightarrow>
                (if k = [] then Inr queries
                 else (case at_index (split_on CHR ''='' query) 1 of
                         None \<Rightarrow> Inr queries
                       | Some v \<Rightarrow>
                           (case decodeURIComponent k of
                              Inl e \<Rightarrow> Inl e
                            | Inr key \<Rightarrow>
                                (case decodeURIComponent
                                        (rx_replace_all [One (Ch CHR ''+'')] '' '' v) of
                                   Inl e \<Rightarrow> Inl e
                                 | Inr val \<Rightarrow> Inr (obj_set key val queries)))))))"

fun parseQuery_reduce :: "string obj \<Rightarrow> string list \<Rightarrow> error + string obj" where
  "parseQuery_reduce queries [] = Inr queries"
| "parseQuery_reduce queries (query # rest) =
     (case parseQuery_step queries query of
        Inl e \<Rightarrow> Inl e
      | Inr queries' \<Rightarrow> parseQuery_reduce queries' rest)"

definition parseQuery :: "string \<Rightarrow> error + string obj" where
  "parseQuery url =
     (if \<not> str_includes url CHR ''?'' then Inr []
      else parseQuery_reduce []
             (split_on CHR ''&'' (rx_replace [Star Dot, One (Ch CHR ''?'')] [] url)))"

text \<open>
  \<open>parseCookies\<close> (lines 154-165), on the value of \<open>req.headers.get("cookie")\<close>. The
  value of an entry is \<open>cookie.split("=")[1]\<close>, \<open>undefined\<close> (\<open>None\<close>) without \<open>=\<close>.
\<close>

definition parseCookies_step :: "string option obj \<Rightarrow> string \<Rightarrow> error + string option obj" where
  "parseCookies_step cookies cookie =
     (case at_index (split_on CHR ''='' cookie) 0 of
        None \<Rightarrow> Inl TypeError
      | Some name \<Rightarrow>
          Inr (obj_set (trimLeft name) (at_index (split_on CHR ''='' cookie) 1) cookies))"

fun parseCookies_reduce :: "string option obj \<Rightarrow> string list \<Rightarrow> error + string option obj" where
  "parseCookies_reduce cookies [] = Inr cookies"
| "parseCookies_reduce cookies (cookie # rest) =
     (case parseCookies_step cookies cookie of
        Inl e \<Rightarrow> Inl e
      | Inr cookies' \<Rightarrow> parseCookies_reduce cookies' rest)"

definition parseCookies :: "string option \<Rightarrow> error + string option obj" where
  "parseCookies rawCookieString =
     (case rawCookieString of
        None \<Rightarrow> Inr []
      | Some s \<Rightarrow> (if s = [] then Inr [] else parseCookies_reduce [] (split_on CHR '';'' s)))"


section \<open>The Headers class\<close>

text \<open>
  \<open>Headers\<close> is the class of the Fetch standard that the platform provides. The object
  holds a list of pairs of a name and a value. \<open>append\<close> strips the leading and trailing
  HTTP white space (tab, line feed, carriage return, space) of the value and raises a
  \<open>TypeError\<close> unless the name is a token and the stripped value a header value: no
  NUL, line feed or carriage return in it and no character beyond U+00FF.
  \<open>new Headers(init)\<close> appends the entries of \<open>init\<close> in turn. The list is modelled
  in the order of the calls, with the names in lower case; whoever reads the object
  (\<open>get\<close>, or the transport that iterates over it) sees the values of one name joined
  by a comma and a space, and the iteration is sorted by name.
\<close>

type_synonym header_list = "(string \<times> string) list"

definition token_chars :: string where
  "token_chars =
     CHR 0x27 #
     ''!#$%&*+-.^_`|~0123456789abcdefghijklmnopqrstuvwxyzABCDEFGHIJKLMNOPQRSTUVWXYZ''"

definition header_name_ok :: "string \<Rightarrow> bool" where
  "header_name_ok name = (name \<noteq> [] \<and> list_all (\<lambda>c. c \<in> set token_chars) name)"

definition http_space :: "char \<Rightarrow> bool" where
  "http_space c = (c \<in> set [CHR 0x09, CHR 0x0A, CHR 0x0D, CHR 0x20])"

definition strip_http_space :: "string \<Rightarrow> string" where
  "strip_http_space v = rev (dropWhile http_space (rev (dropWhile http_space v)))"

text \<open>A unit of a character up to U+00FF: an ASCII byte, or two bytes that start with C2 or C3.\<close>

fun byte_unit :: "string \<Rightarrow> bool" where
  "byte_unit [c] = ascii_char c"
| "byte_unit [c, d] = (c = CHR 0xC2 \<or> c = CHR 0xC3)"
| "byte_unit u = False"

definition header_value_ok :: "string \<Rightarrow> bool" where
  "header_value_ok v =
     (CHR 0x00 \<notin> set v \<and> CHR 0x0A \<notin> set v \<and> CHR 0x0D \<notin> set v \<and>
      list_all byte_unit (units v))"

definition lower_char :: "char \<Rightarrow> char" where
  "lower_char c =
     (case map_of (zip ''ABCDEFGHIJKLMNOPQRSTUVWXYZ'' ''abcdefghijklmnopqrstuvwxyz'') c of
        None \<Rightarrow> c
      | Some l \<Rightarrow> l)"

definition toLowerCase :: "string \<Rightarrow> string" where
  "toLowerCase s = map lower_char s"

definition Headers_append :: "header_list \<Rightarrow> string \<Rightarrow> string \<Rightarrow> error + header_list" where
  "Headers_append hs name v =
     (if header_name_ok name \<and> header_value_ok (strip_http_space v)
      then Inr (hs @ [(toLowerCase name, strip_http_space v)])
      else Inl TypeError)"

fun Headers_fill :: "header_list \<Rightarrow> (string \<times> string) list \<Rightarrow> error + header_list" where
  "Headers_fill hs [] = Inr hs"
| "Headers_fill hs ((name, v) # rest) =
     (case Headers_append hs name v of
        Inl e \<Rightarrow> Inl e
      | Inr hs' \<Rightarrow> Headers_fill hs' rest)"

text \<open>\<open>new Headers(init || {})\<close>.\<close>

definition Headers :: "string obj option \<Rightarrow> error + header_list" where
  "Headers init =
     (case init of None \<Rightarrow> Inr [] | Some ob \<Rightarrow> Headers_fill [] (own_entries ob))"

text \<open>\<open>headers.get(name)\<close>: the values of the name, joined; \<open>null\<close> when there is none.\<close>

fun join_values :: "string list \<Rightarrow> string" where
  "join_values [] = []"
| "join_values [v] = v"
| "join_values (v # w # vs) = v @ '', '' @ join_values (w # vs)"

definition Headers_get :: "header_list \<Rightarrow> string \<Rightarrow> string option" where
  "Headers_get hs name =
     (case filter (\<lambda>entry. fst entry = toLowerCase name) hs of
        [] \<Rightarrow> None
      | entries \<Rightarrow> Some (join_values (map snd entries)))"

section \<open>The data model of aqua.ts\<close>

text \<open>
  A \<open>Response\<close> is an object that handlers create and middlewares may change in place
  or replace, so responses live in a store and are passed by reference. \<open>None\<close> in a
  field is \<open>undefined\<close>. A status code is an integer.
\<close>

record Response =
  statusCode :: "int option"
  headers :: "string obj option"
  cookies :: "string obj option"
  redirect :: "string option"
  content :: "string option"

type_synonym ref = nat

record store =
  objs :: "ref \<Rightarrow> Response"
  fresh :: ref

definition alloc :: "Response \<Rightarrow> store \<Rightarrow> ref \<times> store" where
  "alloc v h = (fresh h, h\<lparr>objs := (objs h)(fresh h := v), fresh := Suc (fresh h)\<rparr>)"

definition empty_Response :: Response where
  "empty_Response =
     \<lparr>statusCode = None, headers = None, cookies = None, redirect = None, content = None\<rparr>"

definition empty_store :: store where
  "empty_store = \<lparr>objs = (\<lambda>r. empty_Response), fresh = 0\<rparr>"

text \<open>What a handler returns: a string, a response object, or \<open>null\<close>/\<open>undefined\<close>.\<close>

datatype RawResponse = RawString string | RawObject ref | RawNothing

record Request =
  url :: string
  req_method :: string
  req_headers :: header_list
  query :: "string obj"
  body :: "string obj"
  req_cookies :: "string option obj"
  parameters :: "string option obj"
  matches :: "string list"

text \<open>
  \<open>req_method\<close>, \<open>req_headers\<close> and \<open>req_cookies\<close> are the fields \<open>method\<close>,
  \<open>headers\<close> and \<open>cookies\<close> of the source's \<open>Request\<close>. \<open>req_headers\<close> is the
  \<open>Headers\<close> object of the incoming request. The field \<open>raw\<close> of the source is the
  transport's handle of the request: what the code passes to \<open>req.raw.respond\<close> is
  the \<open>ServerResponse\<close> that the functions below return.
\<close>

type_synonym ResponseHandler = "Request \<Rightarrow> store \<Rightarrow> error + (RawResponse \<times> store)"

text \<open>
  A middleware gets the request and the current response and returns the next one, a
  reference to the same object or to another one, or \<open>null\<close>/\<open>undefined\<close> (\<open>None\<close>).
\<close>

type_synonym Middleware = "Request \<Rightarrow> ref \<Rightarrow> store \<Rightarrow> error + (ref option \<times> store)"

text \<open>
  A \<open>RegExp\<close> object supplied by the application is known by what \<open>s.match(re)\<close>
  returns: \<open>None\<close> for \<open>null\<close>, otherwise the array of the match and its groups.
\<close>

type_synonym RegExp_obj = "string \<Rightarrow> string list option"

record Route =
  path :: string
  usesURLParameters :: bool
  urlParameterRegex :: "rx list option"
  responseHandler :: ResponseHandler

record RegexRoute =
  rx_path :: RegExp_obj
  rx_responseHandler :: ResponseHandler

text \<open>
  What \<open>respondToRequest\<close> gets as its route: a \<open>Route\<close>, a \<open>RegexRoute\<close>, or, from
  the lookup \<open>this.routes[key]\<close> with a key that names one, a member inherited from
  \<open>Object.prototype\<close>.
\<close>

datatype AnyRoute = PlainRoute Route | RxRoute RegexRoute | InheritedMember

record StaticRoute =
  folder :: string
  static_path :: string

record Options =
  ignoreTrailingSlash :: bool
  log :: bool

record Aqua =
  routes :: "Route obj"
  regexRoutes :: "RegexRoute list"
  options :: Options
  middlewares :: "Middleware list"
  staticRoutes :: "StaticRoute list"
  fallbackHandler :: "ResponseHandler option"

text \<open>
  What the transport hands over: the fields of \<open>ServerRequest\<close> that the code reads.
  The transport does not check the method: it is the first word of the request line,
  whatever that is.
\<close>

record RawRequest =
  raw_url :: string
  raw_method :: string
  raw_headers :: header_list
  contentLength :: "nat option"

text \<open>
  The argument of \<open>req.raw.respond\<close>; \<open>resp_headers\<close> is the list of its \<open>Headers\<close>
  object.
\<close>

record ServerResponse =
  status :: "int option"
  resp_headers :: "header_list option"
  resp_body :: string

text \<open>
  The collaborators of aqua.ts that are not part of it: the four functions of
  \<open>router.ts\<close>, \<open>ContentHandler.getContentType\<close>, \<open>Deno.readFile\<close> (\<open>None\<close> when the
  read fails) and the reading of the request body (\<open>parseBody\<close> reads the body stream
  and calls \<open>JSON.parse\<close>; its result is taken as given). Everything below holds for
  every such environment.
\<close>

record Env =
  parseRequestPath :: "string \<Rightarrow> string"
  findRouteWithMatchingURLParameters :: "string \<Rightarrow> Route obj \<Rightarrow> Route option"
  findMatchingRegexRoute :: "string \<Rightarrow> RegexRoute list \<Rightarrow> RegexRoute option"
  findMatchingStaticRoute :: "string \<Rightarrow> StaticRoute list \<Rightarrow> StaticRoute option"
  getContentType :: "string \<Rightarrow> string option"
  readFile :: "string \<Rightarrow> string option"
  parseBody :: "RawRequest \<Rightarrow> string obj"

section \<open>Extraction of URL parameters\<close>

definition token_rx :: "rx list" where
  "token_rx = [One (Ch CHR '':''), Star Word]"

text \<open>One step of the \<open>reduce\<close> of \<open>connectURLParameters\<close> (lines 168-183).\<close>

definition connect_step ::
  "string \<Rightarrow> string option obj \<times> string \<Rightarrow> string \<Rightarrow> error + (string option obj \<times> string)" where
  "connect_step route_path storage urlParameterWithColon =
     (let urlParameter = remove_first '':'' urlParameterWithColon;
          partTillParameter = split_first urlParameterWithColon route_path
      in case RegExp (rx_replace token_rx ''.*?'' partTillParameter) of
           None \<Rightarrow> Inl (Unmodelled partTillParameter)
         | Some re \<Rightarrow>
             (let urlParameterValue =
                    (case match_g (rx_replace re [] (snd storage)) [Star NotSlash] of
                       None \<Rightarrow> None
                     | Some ms \<Rightarrow> at_index ms 0);
                  currentRequestedPath = rx_replace token_rx [] (snd storage)
              in Inr (obj_set urlParameter urlParameterValue (fst storage),
                      currentRequestedPath)))"

fun connect_reduce ::
  "string \<Rightarrow> string option obj \<times> string \<Rightarrow> string list \<Rightarrow> error + (string option obj \<times> string)" where
  "connect_reduce route_path storage [] = Inr storage"
| "connect_reduce route_path storage (t # ts) =
     (case connect_step route_path storage t of
        Inl e \<Rightarrow> Inl e
      | Inr storage' \<Rightarrow> connect_reduce route_path storage' ts)"

text \<open>
  The result is \<open>undefined\<close> (\<open>Inr None\<close>) when the template has no \<open>:\<close> token, because
  of the optional chaining on the result of \<open>match\<close>.
\<close>

definition connectURLParameters :: "Route \<Rightarrow> string \<Rightarrow> error + string option obj option" where
  "connectURLParameters route requestedPath =
     (case match_g (path route) token_rx of
        None \<Rightarrow> Inr None
      | Some tokens \<Rightarrow>
          (case connect_reduce (path route) ([], requestedPath) tokens of
             Inl e \<Rightarrow> Inl e
           | Inr storage \<Rightarrow> Inr (Some (fst storage))))"


section \<open>Responding\<close>

text \<open>
  \<open>a || d\<close> on a number and on a string; \<open>truthy a\<close> is the string \<open>a\<close> when it is
  truthy (defined and not empty), as in \<open>if (res.redirect)\<close>.
\<close>

definition or_num :: "int option \<Rightarrow> int \<Rightarrow> int" where
  "or_num a d = (case a of None \<Rightarrow> d | Some n \<Rightarrow> (if n = 0 then d else n))"

definition or_str :: "string option \<Rightarrow> string \<Rightarrow> string" where
  "or_str a d = (case a of None \<Rightarrow> d | Some t \<Rightarrow> (if t = [] then d else t))"

definition truthy :: "string option \<Rightarrow> string option" where
  "truthy a = (case a of None \<Rightarrow> None | Some t \<Rightarrow> (if t = [] then None else Some t))"

text \<open>
  Lines 219-224 and 250-255: \<open>new Headers(res.headers || {})\<close> and one \<open>Set-Cookie\<close>
  entry for each key of \<open>res.cookies\<close>.
\<close>

fun append_cookies :: "header_list \<Rightarrow> (string \<times> string) list \<Rightarrow> error + header_list" where
  "append_cookies hs [] = Inr hs"
| "append_cookies hs ((cookieName, v) # rest) =
     (case Headers_append hs ''Set-Cookie'' (cookieName @ ''='' @ v) of
        Inl e \<Rightarrow> Inl e
      | Inr hs' \<Rightarrow> append_cookies hs' rest)"

definition cookie_headers :: "Response \<Rightarrow> error + header_list" where
  "cookie_headers res =
     (case Headers (headers res) of
        Inl e \<Rightarrow> Inl e
      | Inr hs \<Rightarrow>
          (case cookies res of
             None \<Rightarrow> Inr hs
           | Some cs \<Rightarrow> append_cookies hs (own_entries cs)))"

definition formatRawResponse :: "RawResponse \<Rightarrow> store \<Rightarrow> ref option \<times> store" where
  "formatRawResponse rawResponse h =
     (case rawResponse of
        RawString s \<Rightarrow>
          (case alloc (empty_Response\<lparr>content := Some s\<rparr>) h of (r, h') \<Rightarrow> (Some r, h'))
      | RawObject r \<Rightarrow> (Some r, h)
      | RawNothing \<Rightarrow> (None, h))"

definition set_statusCode :: "ref \<Rightarrow> int \<Rightarrow> store \<Rightarrow> store" where
  "set_statusCode r n h = h\<lparr>objs := (objs h)(r := (objs h r)\<lparr>statusCode := Some n\<rparr>)\<rparr>"

text \<open>
  \<open>respondWithNoRouteFound\<close> (lines 238-269). No middleware runs here. An exception of
  \<open>Headers\<close> leaves the function before \<open>respond\<close> is called.
\<close>

definition no_route_found :: ServerResponse where
  "no_route_found =
     \<lparr>status = Some 404, resp_headers = None, resp_body = ''No registered route found.''\<rparr>"

definition respondWithNoRouteFound ::
  "Aqua \<Rightarrow> Request \<Rightarrow> store \<Rightarrow> error + (ServerResponse \<times> store)" where
  "respondWithNoRouteFound app req h =
     (case fallbackHandler app of
        None \<Rightarrow> Inr (no_route_found, h)
      | Some handler \<Rightarrow>
          (case handler req h of
             Inl e \<Rightarrow> Inl e
           | Inr (rawResponse, h1) \<Rightarrow>
               (case formatRawResponse rawResponse h1 of
                  (None, h2) \<Rightarrow> Inr (no_route_found, h2)
                | (Some fallbackResponse, h2) \<Rightarrow>
                    (let h3 = set_statusCode fallbackResponse
                                (case truthy (redirect (objs h2 fallbackResponse)) of
                                   Some t \<Rightarrow> or_num (statusCode (objs h2 fallbackResponse)) 301
                                 | None \<Rightarrow> or_num (statusCode (objs h2 fallbackResponse)) 404)
                                h2;
                         res = objs h3 fallbackResponse
                     in case cookie_headers res of
                          Inl e \<Rightarrow> Inl e
                        | Inr hs \<Rightarrow>
                            (case (case truthy (redirect res) of
                                     Some t \<Rightarrow> Headers_append hs ''Location'' t
                                   | None \<Rightarrow> Inr hs) of
                               Inl e \<Rightarrow> Inl e
                             | Inr hs' \<Rightarrow>
                                 Inr (\<lparr>status = statusCode res, resp_headers = Some hs',
                                      resp_body = or_str (content res)
                                                    ''No fallback response content provided.''\<rparr>,
                                     h3))))))"

text \<open>
  The \<open>reduce\<close> over the middlewares (lines 214-218): once the current response is
  \<open>null\<close>/\<open>undefined\<close> the remaining middlewares are skipped.
\<close>

fun reduce_middlewares ::
  "Middleware list \<Rightarrow> Request \<Rightarrow> ref option \<Rightarrow> store \<Rightarrow> error + (ref option \<times> store)" where
  "reduce_middlewares [] req currentResponse h = Inr (currentResponse, h)"
| "reduce_middlewares (middleware # rest) req currentResponse h =
     (case currentResponse of
        None \<Rightarrow> reduce_middlewares rest req None h
      | Some r \<Rightarrow>
          (case middleware req r h of
             Inl e \<Rightarrow> Inl e
           | Inr (next, h') \<Rightarrow> reduce_middlewares rest req next h'))"

text \<open>
  Lines 219-235: the headers, the cookies and the redirect are read from
  \<open>formattedResponse\<close>, the status and the body from \<open>responseAfterMiddlewares\<close>;
  reading or writing \<open>statusCode\<close> of \<open>null\<close>/\<open>undefined\<close> is a \<open>TypeError\<close>.
\<close>

definition send_response ::
  "header_list \<Rightarrow> ref option \<Rightarrow> store \<Rightarrow> error + (ServerResponse \<times> store)" where
  "send_response hs responseAfterMiddlewares h =
     (case responseAfterMiddlewares of
        None \<Rightarrow> Inl TypeError
      | Some a \<Rightarrow>
          Inr (\<lparr>status = statusCode (objs h a), resp_headers = Some hs,
                resp_body = or_str (content (objs h a)) ''No response content provided.''\<rparr>,
               h))"

definition assemble :: "ref \<Rightarrow> ref option \<Rightarrow> store \<Rightarrow> error + (ServerResponse \<times> store)" where
  "assemble formattedResponse responseAfterMiddlewares h =
     (case cookie_headers (objs h formattedResponse) of
        Inl e \<Rightarrow> Inl e
      | Inr hs \<Rightarrow>
          (case truthy (redirect (objs h formattedResponse)) of
             Some t \<Rightarrow>
               (case Headers_append hs ''Location'' t of
                  Inl e \<Rightarrow> Inl e
                | Inr hs' \<Rightarrow>
                    (case responseAfterMiddlewares of
                       None \<Rightarrow> Inl TypeError
                     | Some a \<Rightarrow>
                         send_response hs' responseAfterMiddlewares
                           (set_statusCode a (or_num (statusCode (objs h a)) 301) h)))
           | None \<Rightarrow> send_response hs responseAfterMiddlewares h))"

text \<open>
  Lines 205-218: the matches of a regular-expression route, the call of the handler and
  the middlewares. An inherited member has no \<open>path\<close> and no \<open>responseHandler\<close>: it is
  not taken for a regular-expression route, and calling its \<open>responseHandler\<close> is a
  \<open>TypeError\<close>.
\<close>

definition route_handler :: "AnyRoute \<Rightarrow> ResponseHandler" where
  "route_handler route =
     (case route of
        PlainRoute r \<Rightarrow> responseHandler r
      | RxRoute r \<Rightarrow> rx_responseHandler r
      | InheritedMember \<Rightarrow> (\<lambda>req h. Inl TypeError))"

definition set_matches :: "Request \<Rightarrow> string \<Rightarrow> AnyRoute \<Rightarrow> error + Request" where
  "set_matches req requestedPath route =
     (case route of
        PlainRoute r \<Rightarrow> Inr req
      | RxRoute r \<Rightarrow>
          (case rx_path r requestedPath of
             None \<Rightarrow> Inl TypeError
           | Some ms \<Rightarrow> Inr (req\<lparr>matches := drop 1 ms\<rparr>))
      | InheritedMember \<Rightarrow> Inr req)"

definition callHandler ::
  "Aqua \<Rightarrow> Request \<Rightarrow> string \<Rightarrow> AnyRoute \<Rightarrow> store \<Rightarrow> error + (ServerResponse \<times> store)" where
  "callHandler app req requestedPath route h =
     (case set_matches req requestedPath route of
        Inl e \<Rightarrow> Inl e
      | Inr req' \<Rightarrow>
          (case route_handler route req' h of
             Inl e \<Rightarrow> Inl e
           | Inr (rawResponse, h1) \<Rightarrow>
               (case formatRawResponse rawResponse h1 of
                  (None, h2) \<Rightarrow>
                    Inr (\<lparr>status = None, resp_headers = None,
                          resp_body = ''No response content provided.''\<rparr>, h2)
                | (Some formattedResponse, h2) \<Rightarrow>
                    (case (if length (middlewares app) > 0
                           then reduce_middlewares (middlewares app) req'
                                  (Some formattedResponse) h2
                           else Inr (Some formattedResponse, h2)) of
                       Inl e \<Rightarrow> Inl e
                     | Inr (responseAfterMiddlewares, h3) \<Rightarrow>
                         assemble formattedResponse responseAfterMiddlewares h3))))"

text \<open>
  Lines 196-203. \<open>connectURLParameters\<close> on a route whose path is not a string, and
  \<open>Object.values\<close> of \<open>undefined\<close>, are \<open>TypeError\<close>s.
\<close>

definition route_parameters :: "AnyRoute \<Rightarrow> string \<Rightarrow> error + string option obj" where
  "route_parameters route requestedPath =
     (case route of
        RxRoute r \<Rightarrow> Inl TypeError
      | InheritedMember \<Rightarrow> Inl TypeError
      | PlainRoute r \<Rightarrow>
          (case connectURLParameters r requestedPath of
             Inl e \<Rightarrow> Inl e
           | Inr None \<Rightarrow> Inl TypeError
           | Inr (Some ps) \<Rightarrow> Inr ps))"

definition respondToRequest ::
  "Aqua \<Rightarrow> Request \<Rightarrow> string \<Rightarrow> AnyRoute \<Rightarrow> bool \<Rightarrow> store \<Rightarrow> error + (ServerResponse \<times> store)" where
  "respondToRequest app req requestedPath route uses h =
     (if uses then
        (case route_parameters route requestedPath of
           Inl e \<Rightarrow> Inl e
         | Inr ps \<Rightarrow>
             (if Some [] \<in> set (obj_values ps)
              then respondWithNoRouteFound app (req\<lparr>parameters := ps\<rparr>) h
              else callHandler app (req\<lparr>parameters := ps\<rparr>) requestedPath route h))
      else callHandler app req requestedPath route h)"

text \<open>
  \<open>respondToStaticRequest\<close> (lines 277-287). The argument of \<open>respond\<close> is built
  inside the \<open>try\<close>, the headers before the file is read: when \<open>Headers\<close> refuses the
  content type the file is not read and the answer is that of the \<open>catch\<close>.
\<close>

definition extension_rx :: "rx list" where
  "extension_rx = [Star Dot, Ahead [One (Ch CHR ''.''), Star Word, End]]"

definition file_not_found :: ServerResponse where
  "file_not_found = \<lparr>status = Some 404, resp_headers = None, resp_body = ''File not found''\<rparr>"

definition respondToStaticRequest :: "Env \<Rightarrow> Request \<Rightarrow> string \<Rightarrow> StaticRoute \<Rightarrow> ServerResponse" where
  "respondToStaticRequest env req requestedPath staticRoute =
     (let resourcePath = remove_first (static_path staticRoute) requestedPath;
          extension = rx_replace extension_rx [] resourcePath;
          contentType = (if extension \<noteq> [] then getContentType env extension else None)
      in case (case truthy contentType of
                 Some t \<Rightarrow> Headers (Some [(''Content-Type'', t)])
               | None \<Rightarrow> Headers None) of
           Inl e \<Rightarrow> file_not_found
         | Inr hs \<Rightarrow>
             (case readFile env (folder staticRoute @ resourcePath) of
                Some bytes \<Rightarrow> \<lparr>status = None, resp_headers = Some hs, resp_body = bytes\<rparr>
              | None \<Rightarrow> file_not_found))"


section \<open>The request loop\<close>

definition slash_end_rx :: "rx list" where
  "slash_end_rx = [One (Ch CHR ''/''), End]"

text \<open>
  Lines 291-303: the \<open>Request\<close> built from the raw request. The query is parsed from
  the (possibly rewritten) URL; the cookies are parsed when the header \<open>cookies\<close> is
  present, from the header \<open>cookie\<close>.
\<close>

definition make_request :: "Env \<Rightarrow> Aqua \<Rightarrow> RawRequest \<Rightarrow> error + Request" where
  "make_request env app rawRequest0 =
     (let rawRequest =
            (if ignoreTrailingSlash (options app)
             then rawRequest0\<lparr>raw_url := rx_replace slash_end_rx [] (raw_url rawRequest0) @ ''/''\<rparr>
             else rawRequest0)
      in if \<not> ascii (raw_method rawRequest) then Inl (Unmodelled (raw_method rawRequest))
         else
           (case (if str_includes (raw_url rawRequest) CHR ''?''
                  then parseQuery (raw_url rawRequest) else Inr []) of
              Inl e \<Rightarrow> Inl e
            | Inr q \<Rightarrow>
                (case (case truthy (Headers_get (raw_headers rawRequest) ''cookies'') of
                         Some t \<Rightarrow> parseCookies (Headers_get (raw_headers rawRequest) ''cookie'')
                       | None \<Rightarrow> Inr []) of
                   Inl e \<Rightarrow> Inl e
                 | Inr c \<Rightarrow>
                     Inr \<lparr>url = raw_url rawRequest,
                          req_method = toUpperCase (raw_method rawRequest),
                          req_headers = raw_headers rawRequest,
                          query = q,
                          body = (case contentLength rawRequest of
                                    None \<Rightarrow> []
                                  | Some n \<Rightarrow> (if n = 0 then [] else parseBody env rawRequest)),
                          req_cookies = c,
                          parameters = [],
                          matches = []\<rparr>)))"

text \<open>
  Lines 304-341, the resolution of one request. The test of line 314 is a test of
  truthiness of \<open>this.routes[key]\<close>: an own entry and an inherited member both pass it,
  and line 340 hands the value found to \<open>respondToRequest\<close>. (With the option \<open>log\<close>
  the source wraps \<open>respond\<close> to print a line on the console; the response is the
  same.)
\<close>

definition resolve ::
  "Env \<Rightarrow> Aqua \<Rightarrow> Request \<Rightarrow> store \<Rightarrow> error + (ServerResponse \<times> store)" where
  "resolve env app req h =
     (let requestedPath = parseRequestPath env (url req)
      in case obj_get (routes app) (req_method req @ requestedPath) of
           Own route \<Rightarrow> respondToRequest app req requestedPath (PlainRoute route) False h
         | Inherited \<Rightarrow> respondToRequest app req requestedPath InheritedMember False h
         | Absent \<Rightarrow>
             (case findRouteWithMatchingURLParameters env requestedPath (routes app) of
                Some matchingRouteWithURLParameters \<Rightarrow>
                  respondToRequest app req requestedPath
                    (PlainRoute matchingRouteWithURLParameters) True h
              | None \<Rightarrow>
                  (case findMatchingRegexRoute env requestedPath (regexRoutes app) of
                     Some matchingRegexRoute \<Rightarrow>
                       respondToRequest app req requestedPath (RxRoute matchingRegexRoute) False h
                   | None \<Rightarrow>
                       (if req_method req = ''GET''
                        then (case findMatchingStaticRoute env requestedPath (staticRoutes app) of
                                Some matchingStaticRoute \<Rightarrow>
                                  Inr (respondToStaticRequest env req requestedPath
                                         matchingStaticRoute, h)
                              | None \<Rightarrow> respondWithNoRouteFound app req h)
                        else respondWithNoRouteFound app req h))))"

definition handleRequest ::
  "Env \<Rightarrow> Aqua \<Rightarrow> RawRequest \<Rightarrow> store \<Rightarrow> error + (ServerResponse \<times> store)" where
  "handleRequest env app rawRequest h =
     (case make_request env app rawRequest of
        Inl e \<Rightarrow> Inl e
      | Inr req \<Rightarrow> resolve env app req h)"

text \<open>
  \<open>handleRequests\<close> (lines 289-343): the loop over the requests of one server, here a
  list. Nothing in the loop catches an exception: the first one ends the loop. The
  result is the responses sent and the exception that ended the loop, if any.
\<close>

fun handleRequests ::
  "Env \<Rightarrow> Aqua \<Rightarrow> RawRequest list \<Rightarrow> store \<Rightarrow> ServerResponse list \<times> error option" where
  "handleRequests env app [] h = ([], None)"
| "handleRequests env app (rawRequest # rest) h =
     (case handleRequest env app rawRequest h of
        Inl e \<Rightarrow> ([], Some e)
      | Inr (res, h') \<Rightarrow>
          (case handleRequests env app rest h' of (sent, e) \<Rightarrow> (res # sent, e)))"

section \<open>Registration\<close>

definition new_Aqua :: "Options \<Rightarrow> Aqua" where
  "new_Aqua opts =
     \<lparr>routes = [], regexRoutes = [], options = opts, middlewares = [], staticRoutes = [],
      fallbackHandler = None\<rparr>"

definition provideFallback :: "Aqua \<Rightarrow> ResponseHandler \<Rightarrow> Aqua" where
  "provideFallback app handler = app\<lparr>fallbackHandler := Some handler\<rparr>"

definition register :: "Aqua \<Rightarrow> Middleware \<Rightarrow> Aqua" where
  "register app middleware = app\<lparr>middlewares := middlewares app @ [middleware]\<rparr>"

datatype PathArg = StringPath string | RegExpPath RegExp_obj

text \<open>
  \<open>route\<close> (lines 355-373). The compiled pattern of a template with parameters is
  \<open>new RegExp\<close> of the template with every token replaced by \<open>([^\/]*)\<close>. The key
  starts with the method and a slash, so the assignment creates or replaces an own
  entry.
\<close>

definition route :: "Aqua \<Rightarrow> PathArg \<Rightarrow> string \<Rightarrow> ResponseHandler \<Rightarrow> error + Aqua" where
  "route app p meth handler =
     (case p of
        RegExpPath re \<Rightarrow>
          Inr (app\<lparr>regexRoutes :=
                      regexRoutes app @ [\<lparr>rx_path = re, rx_responseHandler = handler\<rparr>]\<rparr>)
      | StringPath path0 \<Rightarrow>
          (if \<not> startsWith path0 ''/'' then Inl (Error ''Routes must start with a slash'')
           else if \<not> ascii meth then Inl (Unmodelled meth)
           else
             (let pth = (if ignoreTrailingSlash (options app)
                         then rx_replace slash_end_rx [] path0 @ ''/'' else path0);
                  uses = rx_test [One (Ch CHR '':''), One Alpha] pth
              in case (if uses
                       then map_option Some (RegExp (rx_replace_all token_rx ''([^/]*)'' pth))
                       else Some None) of
                   None \<Rightarrow> Inl (Unmodelled pth)
                 | Some re \<Rightarrow>
                     Inr (app\<lparr>routes :=
                                 obj_set (toUpperCase meth @ pth)
                                   \<lparr>path = pth, usesURLParameters = uses,
                                    urlParameterRegex = re, responseHandler = handler\<rparr>
                                   (routes app)\<rparr>))))"

definition get :: "Aqua \<Rightarrow> PathArg \<Rightarrow> ResponseHandler \<Rightarrow> error + Aqua" where
  "get app p handler = route app p ''GET'' handler"

definition post :: "Aqua \<Rightarrow> PathArg \<Rightarrow> ResponseHandler \<Rightarrow> error + Aqua" where
  "post app p handler = route app p ''POST'' handler"

definition serve :: "Aqua \<Rightarrow> string \<Rightarrow> string \<Rightarrow> error + Aqua" where
  "serve app fld pth =
     (if \<not> startsWith pth ''/'' then Inl (Error ''Routes must start with a slash'')
      else Inr (app\<lparr>staticRoutes :=
                       staticRoutes app @
                         [\<lparr>folder = rx_replace slash_end_rx [] fld @ ''/'',
                           static_path = rx_replace slash_end_rx [] pth @ ''/''\<rparr>]\<rparr>))"

section \<open>The functions of router.ts\<close>

text \<open>
  Modelled from the spec: \<open>router.ts\<close> is not among the sources. Section 4.2 and 4.5 of
  the specification describe its functions: the parameterized match tries the registered
  routes whose template has parameter tokens against the compiled pattern; the regex
  match returns the first route, in registration order, whose match spans the full
  requested path; the static match returns the first route whose public prefix is a
  literal prefix of the requested path. The requested path is the URL up to its query
  string. These definitions are used for the concrete runs below only: the theorems
  about the dispatcher hold for every environment.
\<close>

definition spec_parseRequestPath :: "string \<Rightarrow> string" where
  "spec_parseRequestPath u = takeWhile (\<lambda>c. c \<noteq> CHR ''?'') u"

definition rx_full :: "rx list \<Rightarrow> string \<Rightarrow> bool" where
  "rx_full p s = (rx_here (p @ [End]) (units s) \<noteq> None)"

definition spec_findRouteWithMatchingURLParameters :: "string \<Rightarrow> Route obj \<Rightarrow> Route option" where
  "spec_findRouteWithMatchingURLParameters requestedPath rs =
     find (\<lambda>r. usesURLParameters r \<and>
                (case urlParameterRegex r of None \<Rightarrow> False | Some p \<Rightarrow> rx_full p requestedPath))
          (obj_values rs)"

definition spec_findMatchingRegexRoute :: "string \<Rightarrow> RegexRoute list \<Rightarrow> RegexRoute option" where
  "spec_findMatchingRegexRoute requestedPath rs =
     find (\<lambda>r. case rx_path r requestedPath of
                  None \<Rightarrow> False
                | Some ms \<Rightarrow> at_index ms 0 = Some requestedPath) rs"

definition spec_findMatchingStaticRoute :: "string \<Rightarrow> StaticRoute list \<Rightarrow> StaticRoute option" where
  "spec_findMatchingStaticRoute requestedPath rs =
     find (\<lambda>r. startsWith requestedPath (static_path r)) rs"

definition spec_env :: "(string \<Rightarrow> string option) \<Rightarrow> Env" where
  "spec_env files =
     \<lparr>parseRequestPath = spec_parseRequestPath,
      findRouteWithMatchingURLParameters = spec_findRouteWithMatchingURLParameters,
      findMatchingRegexRoute = spec_findMatchingRegexRoute,
      findMatchingStaticRoute = spec_findMatchingStaticRoute,
      getContentType = (\<lambda>extension. None),
      readFile = files,
      parseBody = (\<lambda>rawRequest. [])\<rparr>"


section \<open>The query parser in the words of the specification\<close>

text \<open>
  These definitions are not read off the source: they follow the words of the
  specification for \<open>parseQuery\<close> (it splits the suffix on \<open>&\<close>, then each pair on
  the first \<open>=\<close>; skips any pair missing a key or a value; percent-decodes both key
  and value; replaces \<open>+\<close> with space in the value before decoding), and the parser of
  the source is compared with them below. The key of a pair is the text before its
  first \<open>=\<close> and the value the text after it. A pair is kept when it has a key and a
  \<open>=\<close>; its value may be the empty string. The kept pairs are entered from left to
  right, a later pair replacing the value of an earlier one with the same key; a pair
  that cannot be decoded makes the whole parse a \<open>URIError\<close>.
\<close>

definition pair_key :: "string \<Rightarrow> string" where
  "pair_key pair = takeWhile (\<lambda>c. c \<noteq> CHR ''='') pair"

definition pair_value :: "string \<Rightarrow> string" where
  "pair_value pair = drop 1 (dropWhile (\<lambda>c. c \<noteq> CHR ''='') pair)"

definition kept_pair :: "string \<Rightarrow> bool" where
  "kept_pair pair = (pair_key pair \<noteq> [] \<and> CHR ''='' \<in> set pair)"

definition plus_to_space :: "string \<Rightarrow> string" where
  "plus_to_space v = map (\<lambda>c. if c = CHR ''+'' then CHR '' '' else c) v"

definition decoded_pair :: "string \<Rightarrow> error + (string \<times> string)" where
  "decoded_pair pair =
     (case decodeURIComponent (pair_key pair) of
        Inl e \<Rightarrow> Inl e
      | Inr k \<Rightarrow>
          (case decodeURIComponent (plus_to_space (pair_value pair)) of
             Inl e \<Rightarrow> Inl e
           | Inr v \<Rightarrow> Inr (k, v)))"

definition enter_all :: "string obj \<Rightarrow> (string \<times> string) list \<Rightarrow> string obj" where
  "enter_all queries entries =
     foldl (\<lambda>qs entry. obj_set (fst entry) (snd entry) qs) queries entries"

definition query_of_pairs :: "string list \<Rightarrow> error + string obj" where
  "query_of_pairs pairs =
     (if list_ex isl (map decoded_pair (filter kept_pair pairs)) then Inl URIError
      else Inr (enter_all [] (map projr (map decoded_pair (filter kept_pair pairs)))))"

text \<open>The number of \<open>=\<close> in a pair.\<close>

definition equals_signs :: "string \<Rightarrow> nat" where
  "equals_signs pair = length (filter (\<lambda>c. c = CHR ''='') pair)"

section \<open>An example application\<close>

text \<open>
  The application used for the concrete runs: an exact route, the parameterized route of
  the README, a regular-expression route for everything under \<open>/api/\<close> (the pattern
  \<open>^\/api\/([^]*)$\<close>), a static folder, no fallback handler and no middleware.
\<close>

definition default_options :: Options where
  "default_options = \<lparr>ignoreTrailingSlash = False, log = False\<rparr>"

definition say :: "string \<Rightarrow> ResponseHandler" where
  "say s req h = Inr (RawString s, h)"

definition echo_action :: ResponseHandler where
  "echo_action req h =
     (case obj_get (parameters req) ''action'' of
        Own (Some v) \<Rightarrow> Inr (RawString v, h)
      | _ \<Rightarrow> Inr (RawNothing, h))"

definition re_api :: RegExp_obj where
  "re_api s = (if startsWith s ''/api/'' then Some [s, drop 5 s] else None)"

definition hello_route :: Route where
  "hello_route =
     \<lparr>path = ''/hello'', usesURLParameters = False, urlParameterRegex = None,
      responseHandler = say ''exact''\<rparr>"

definition action_route :: Route where
  "action_route =
     \<lparr>path = ''/api/:action'', usesURLParameters = True,
      urlParameterRegex =
        Some [One (Ch CHR ''/''), One (Ch CHR ''a''), One (Ch CHR ''p''), One (Ch CHR ''i''),
              One (Ch CHR ''/''), Star NotSlash],
      responseHandler = echo_action\<rparr>"

definition api_regex_route :: RegexRoute where
  "api_regex_route = \<lparr>rx_path = re_api, rx_responseHandler = say ''regex''\<rparr>"

definition public_route :: StaticRoute where
  "public_route = \<lparr>folder = ''public/'', static_path = ''/static/''\<rparr>"

definition demo_app :: Aqua where
  "demo_app =
     \<lparr>routes = [(''GET/hello'', hello_route), (''GET/api/:action'', action_route)],
      regexRoutes = [api_regex_route],
      options = default_options,
      middlewares = [],
      staticRoutes = [public_route],
      fallbackHandler = None\<rparr>"

definition demo_files :: "string \<Rightarrow> string option" where
  "demo_files p =
     (if p = ''public/app.js'' then Some ''js''
      else if p = ''public/../secret.txt'' then Some ''secret''
      else None)"

definition request :: "string \<Rightarrow> string \<Rightarrow> Request" where
  "request m u =
     \<lparr>url = u, req_method = m, req_headers = [], query = [], body = [], req_cookies = [],
      parameters = [], matches = []\<rparr>"

definition sent :: "error + (ServerResponse \<times> store) \<Rightarrow> error + ServerResponse" where
  "sent r = map_sum id fst r"

text \<open>A request that carries the header \<open>cookie\<close>.\<close>

definition cookie_request :: RawRequest where
  "cookie_request =
     \<lparr>raw_url = ''/hello'', raw_method = ''GET'', raw_headers = [(''cookie'', ''a=1; b=2'')],
      contentLength = None\<rparr>"

text \<open>
  A handler that returns a response object, and three middlewares: one returns
  \<open>undefined\<close>, one returns a changed copy of the response, one changes the response in
  place and returns it.
\<close>

definition drop_response :: Middleware where
  "drop_response req r h = Inr (None, h)"

definition page :: ResponseHandler where
  "page req h =
     (case alloc (empty_Response\<lparr>content := Some ''page''\<rparr>) h of
        (r, h') \<Rightarrow> Inr (RawObject r, h'))"

definition to_login :: "Response \<Rightarrow> Response" where
  "to_login res =
     res\<lparr>headers := Some [(''X-Frame-Options'', ''DENY'')], cookies := Some [(''sid'', ''1'')],
         redirect := Some ''/login''\<rparr>"

definition replace_response :: Middleware where
  "replace_response req r h =
     (case alloc (to_login (objs h r)) h of (r', h') \<Rightarrow> Inr (Some r', h'))"

definition change_in_place :: Middleware where
  "change_in_place req r h = Inr (Some r, h\<lparr>objs := (objs h)(r := to_login (objs h r))\<rparr>)"

definition page_route :: Route where
  "page_route =
     \<lparr>path = ''/page'', usesURLParameters = False, urlParameterRegex = None,
      responseHandler = page\<rparr>"

definition page_app :: "Middleware list \<Rightarrow> Aqua" where
  "page_app mws =
     \<lparr>routes = [(''GET/page'', page_route)], regexRoutes = [], options = default_options,
      middlewares = mws, staticRoutes = [], fallbackHandler = None\<rparr>"

text \<open>A template with three parameters.\<close>

definition three_route :: Route where
  "three_route =
     \<lparr>path = ''/a/:x/b/:y/c/:z'', usesURLParameters = True,
      urlParameterRegex =
        Some [One (Ch CHR ''/''), One (Ch CHR ''a''), One (Ch CHR ''/''), Star NotSlash,
              One (Ch CHR ''/''), One (Ch CHR ''b''), One (Ch CHR ''/''), Star NotSlash,
              One (Ch CHR ''/''), One (Ch CHR ''c''), One (Ch CHR ''/''), Star NotSlash],
      responseHandler = say ''three''\<rparr>"

definition three_app :: Aqua where
  "three_app =
     \<lparr>routes = [(''GET/a/:x/b/:y/c/:z'', three_route)], regexRoutes = [],
      options = default_options, middlewares = [], staticRoutes = [], fallbackHandler = None\<rparr>"

text \<open>A handler that throws, as a route's handler and as the fallback handler.\<close>

definition boom :: ResponseHandler where
  "boom req h = Inl (Thrown ''boom'')"

definition boom_route :: Route where
  "boom_route =
     \<lparr>path = ''/boom'', usesURLParameters = False, urlParameterRegex = None,
      responseHandler = boom\<rparr>"

definition boom_app :: Aqua where
  "boom_app =
     \<lparr>routes = [(''GET/boom'', boom_route), (''GET/hello'', hello_route)], regexRoutes = [],
      options = default_options, middlewares = [], staticRoutes = [],
      fallbackHandler = Some boom\<rparr>"

definition raw_get :: "string \<Rightarrow> RawRequest" where
  "raw_get u = \<lparr>raw_url = u, raw_method = ''GET'', raw_headers = [], contentLength = None\<rparr>"

text \<open>
  Not part of aqua.ts: how the operating system resolves a relative path, segment by
  segment, and whether a file path stays inside a folder.
\<close>

fun resolve_dots :: "string list \<Rightarrow> string list \<Rightarrow> string list" where
  "resolve_dots stack [] = rev stack"
| "resolve_dots stack (seg # rest) =
     (if seg = ''..'' then resolve_dots (drop 1 stack) rest
      else if seg = ''.'' \<or> seg = [] then resolve_dots stack rest
      else resolve_dots (seg # stack) rest)"

definition resolved :: "string \<Rightarrow> string list" where
  "resolved p = resolve_dots [] (split_on CHR ''/'' p)"

definition inside :: "string \<Rightarrow> string \<Rightarrow> bool" where
  "inside fld file = (take (length (resolved fld)) (resolved file) = resolved fld)"

text \<open>
  A handler that returns \<open>{redirect: target, statusCode: code}\<close>, registered for
  \<open>/dashboard\<close> and as the fallback handler.
\<close>

definition redirect_with :: "string \<Rightarrow> int option \<Rightarrow> ResponseHandler" where
  "redirect_with target code req h =
     (case alloc (empty_Response\<lparr>statusCode := code, redirect := Some target\<rparr>) h of
        (r, h') \<Rightarrow> Inr (RawObject r, h'))"

definition dashboard_route :: "string \<Rightarrow> int option \<Rightarrow> Route" where
  "dashboard_route target code =
     \<lparr>path = ''/dashboard'', usesURLParameters = False, urlParameterRegex = None,
      responseHandler = redirect_with target code\<rparr>"

definition redirect_app :: "string \<Rightarrow> int option \<Rightarrow> Aqua" where
  "redirect_app target code =
     \<lparr>routes = [(''GET/dashboard'', dashboard_route target code)], regexRoutes = [],
      options = default_options, middlewares = [], staticRoutes = [],
      fallbackHandler = Some (redirect_with target code)\<rparr>"

text \<open>A route with a URL parameter whose handler redirects.\<close>

definition go_route :: Route where
  "go_route =
     \<lparr>path = ''/go/:where'', usesURLParameters = True,
      urlParameterRegex =
        Some [One (Ch CHR ''/''), One (Ch CHR ''g''), One (Ch CHR ''o''), One (Ch CHR ''/''),
              Star NotSlash],
      responseHandler = redirect_with ''/login'' None\<rparr>"


section \<open>Facts about the model\<close>

lemmas string_defs =
  unit_len_def unit_rest_def ascii_char_def ascii_def continuation_def line_terminators_def
  rx_replace_def rx_replace_all_def rx_test_def match_g_def word_chars_def alpha_chars_def
  special_chars_def

lemmas header_defs =
  Headers_def Headers_append_def header_name_ok_def token_chars_def header_value_ok_def
  strip_http_space_def http_space_def toLowerCase_def lower_char_def Headers_get_def
  own_entries_def array_index_def decimal_def

lemmas run_defs =
  respondToRequest_def callHandler_def respondWithNoRouteFound_def
  respondToStaticRequest_def route_parameters_def connectURLParameters_def connect_step_def
  set_matches_def route_handler_def formatRawResponse_def alloc_def assemble_def
  send_response_def cookie_headers_def set_statusCode_def
  truthy_def or_num_def or_str_def no_route_found_def file_not_found_def obj_get_def
  obj_values_def prototype_members_def token_rx_def extension_rx_def
  empty_store_def empty_Response_def sent_def Let_def string_defs header_defs

lemmas spec_env_defs =
  spec_env_def spec_parseRequestPath_def spec_findRouteWithMatchingURLParameters_def
  spec_findMatchingRegexRoute_def spec_findMatchingStaticRoute_def rx_full_def

lemmas demo_defs =
  demo_app_def hello_route_def action_route_def api_regex_route_def public_route_def
  demo_files_def request_def say_def echo_action_def re_api_def default_options_def

lemmas registration_defs =
  get_def route_def new_Aqua_def register_def serve_def provideFallback_def slash_end_rx_def
  token_rx_def toUpperCase_def upper_char_def default_options_def Let_def string_defs

lemma demo_app_registered:
  "(case get (new_Aqua default_options) (StringPath ''/hello'') (say ''exact'') of
      Inl e \<Rightarrow> Inl e
    | Inr a1 \<Rightarrow>
        (case get a1 (StringPath ''/api/:action'') echo_action of
           Inl e \<Rightarrow> Inl e
         | Inr a2 \<Rightarrow>
             (case get a2 (RegExpPath re_api) (say ''regex'') of
                Inl e \<Rightarrow> Inl e
              | Inr a3 \<Rightarrow> serve a3 ''public'' ''/static''))) = Inr demo_app"
  by (simp add: registration_defs demo_app_def hello_route_def action_route_def
      api_regex_route_def public_route_def)

lemma respondWithNoRouteFound_staticRoutes [simp]:
  "respondWithNoRouteFound (app\<lparr>staticRoutes := ss\<rparr>) req h = respondWithNoRouteFound app req h"
  by (simp add: respondWithNoRouteFound_def)

lemma callHandler_staticRoutes [simp]:
  "callHandler (app\<lparr>staticRoutes := ss\<rparr>) req p r h = callHandler app req p r h"
  by (simp add: callHandler_def cong: sum.case_cong prod.case_cong option.case_cong if_cong)

lemma respondToRequest_staticRoutes [simp]:
  "respondToRequest (app\<lparr>staticRoutes := ss\<rparr>) req p r u h = respondToRequest app req p r u h"
  by (simp add: respondToRequest_def cong: sum.case_cong if_cong)

lemmas more_defs =
  cookie_request_def drop_response_def page_def to_login_def replace_response_def
  change_in_place_def page_route_def page_app_def three_route_def three_app_def

lemma page_app_registered:
  "get (new_Aqua default_options) (StringPath ''/page'') page = Inr (page_app []) \<and>
   register (page_app []) replace_response = page_app [replace_response]"
  by (simp add: registration_defs page_app_def page_route_def)

lemma three_app_registered:
  "get (new_Aqua default_options) (StringPath ''/a/:x/b/:y/c/:z'') (say ''three'') =
     Inr three_app"
  by (simp add: registration_defs three_app_def three_route_def)

lemma make_request_raw_get:
  "\<not> str_includes u CHR ''?'' \<Longrightarrow> \<not> ignoreTrailingSlash (options app) \<Longrightarrow>
   make_request env app (raw_get u) = Inr (request ''GET'' u)"
  by (simp add: make_request_def raw_get_def request_def Headers_get_def truthy_def
      toUpperCase_def upper_char_def ascii_def ascii_char_def)

lemma startsWith_append: "startsWith s p \<longleftrightarrow> (\<exists>zs. s = p @ zs)"
  by (induction s p rule: startsWith.induct) auto

lemma remove_first_prefix: "startsWith s p \<Longrightarrow> remove_first p s = drop (length p) s"
  by (cases s) (auto simp: startsWith_append)

lemma respondWithNoRouteFound_regexRoutes [simp]:
  "respondWithNoRouteFound (app\<lparr>regexRoutes := rs\<rparr>) req h = respondWithNoRouteFound app req h"
  by (simp add: respondWithNoRouteFound_def)

lemmas redirect_defs = redirect_with_def dashboard_route_def redirect_app_def

lemma cookie_headers_statusCode [simp]:
  "cookie_headers (res\<lparr>statusCode := c\<rparr>) = cookie_headers res"
  by (simp add: cookie_headers_def split: option.splits sum.splits)

lemma Headers_append_error: "Headers_append hs name v = Inl e \<Longrightarrow> e = TypeError"
  by (simp add: Headers_append_def split: if_splits)

lemma Headers_fill_error: "Headers_fill hs entries = Inl e \<Longrightarrow> e = TypeError"
  by (induction hs entries rule: Headers_fill.induct)
     (auto split: sum.splits dest: Headers_append_error)

lemma append_cookies_error: "append_cookies hs cs = Inl e \<Longrightarrow> e = TypeError"
  by (induction hs cs rule: append_cookies.induct)
     (auto split: sum.splits dest: Headers_append_error)

lemma cookie_headers_error: "cookie_headers res = Inl e \<Longrightarrow> e = TypeError"
  by (auto simp: cookie_headers_def Headers_def split: sum.splits option.splits
      dest: Headers_fill_error append_cookies_error)

lemma split_on_not_Nil [simp]: "split_on c s \<noteq> []"
  by (induction s) (auto split: list.splits)

lemma split_on_first: "at_index (split_on c s) 0 = Some (takeWhile (\<lambda>x. x \<noteq> c) s)"
  by (induction s) (auto split: list.splits)

lemma split_on_second:
  "at_index (split_on c s) (Suc 0) =
     (if c \<in> set s then Some (takeWhile (\<lambda>x. x \<noteq> c) (drop 1 (dropWhile (\<lambda>x. x \<noteq> c) s)))
      else None)"
proof (induction s)
  case Nil
  show ?case by simp
next
  case (Cons x xs)
  show ?case
  proof (cases "x = c")
    case True
    then show ?thesis by (simp add: split_on_first)
  next
    case False
    obtain piece pieces where sp: "split_on c xs = piece # pieces"
      by (cases "split_on c xs") auto
    with False Cons show ?thesis by auto
  qed
qed

lemma decode_plain: "CHR ''%'' \<notin> set s \<Longrightarrow> decodeURIComponent s = Inr s"
proof -
  assume a: "CHR ''%'' \<notin> set s"
  then have t: "pct_tokens s = Some (map Raw s)"
    by (induction s) auto
  have u: "utf8_ok 0 0 0 (map Raw s)"
    by (induction s) auto
  show ?thesis by (simp add: decodeURIComponent_def t u comp_def)
qed

lemma ascii_not_continuation: "ascii_char c \<Longrightarrow> \<not> continuation c"
  by (simp add: ascii_char_def continuation_def)

lemma unit_rest_ascii [simp]: "ascii_char c \<Longrightarrow> unit_rest c xs = []"
  by (simp add: unit_rest_def unit_len_def ascii_char_def)

lemma unit_rest_take: "take (length (unit_rest x xs)) xs = unit_rest x xs"
proof -
  have "unit_rest x xs = take (length (unit_rest x xs)) (take (unit_len x - 1) xs)"
    unfolding unit_rest_def by (rule takeWhile_eq_take)
  also have "\<dots> = take (length (unit_rest x xs)) xs"
    by (simp add: unit_rest_def min_def length_takeWhile_le order_trans [OF length_takeWhile_le])
  finally show ?thesis by simp
qed

lemma unit_rest_drop: "unit_rest x xs @ drop (length (unit_rest x xs)) xs = xs"
  using append_take_drop_id [of "length (unit_rest x xs)" xs] by (simp add: unit_rest_take)

lemma concat_units [simp]: "concat (units s) = s"
  by (induction s rule: units.induct) (simp_all add: unit_rest_drop)

lemma unit_rest_tail:
  "\<not> continuation c \<Longrightarrow> unit_rest x (xs @ c # b) = unit_rest x xs"
proof (cases "unit_len x - 1 \<le> length xs")
  case True
  then show ?thesis by (simp add: unit_rest_def)
next
  case False
  assume c: "\<not> continuation c"
  from False obtain m where m: "unit_len x - 1 - length xs = Suc m"
    by (cases "unit_len x - 1 - length xs") auto
  from False have "take (unit_len x - 1) xs = xs"
    by simp
  then have "take (unit_len x - 1) (xs @ c # b) = xs @ c # take m b"
    by (simp only: take_append m take_Suc_Cons)
  moreover from False have "take (unit_len x - 1) xs = xs"
    by simp
  ultimately show ?thesis
    using c by (simp add: unit_rest_def takeWhile_tail)
qed

lemma units_append_ascii:
  "ascii_char c \<Longrightarrow> units (a @ c # b) = units a @ [c] # units b"
proof (induction a rule: units.induct)
  case 1
  then show ?case by simp
next
  case (2 x xs)
  have le: "length (unit_rest x xs) \<le> length xs"
    unfolding unit_rest_def
    by (rule order_trans [OF length_takeWhile_le]) simp
  from 2 show ?case
    by (simp add: unit_rest_tail ascii_not_continuation le)
qed

lemma units_ascii: "ascii s \<Longrightarrow> units s = map (\<lambda>c. [c]) s"
  by (induction s) (simp_all add: ascii_def)

lemma unit_in_units: "[c] \<in> set (units s) \<Longrightarrow> c \<in> set s"
proof -
  assume "[c] \<in> set (units s)"
  then have "c \<in> set (concat (units s))"
    unfolding set_concat by force
  then show ?thesis by simp
qed

lemma replace_all_char_units:
  "replace_all_units [One (Ch c)] [d] us = concat (map (\<lambda>u. if u = [c] then [d] else u) us)"
  by (induction us) auto

lemma map_units_ascii:
  "ascii_char c \<Longrightarrow>
   concat (map (\<lambda>u. if u = [c] then [d] else u) (units s)) = map (\<lambda>x. if x = c then d else x) s"
proof (induction s rule: units.induct)
  case 1
  show ?case by simp
next
  case (2 x xs)
  let ?R = "unit_rest x xs"
  let ?D = "drop (length ?R) xs"
  let ?g = "\<lambda>x. if x = c then d else x"
  have ih: "concat (map (\<lambda>u. if u = [c] then [d] else u) (units ?D)) = map ?g ?D"
    using 2 by simp
  have cont: "\<forall>y\<in>set ?R. continuation y"
    unfolding unit_rest_def by (auto dest: set_takeWhileD)
  have "\<forall>y\<in>set ?R. y \<noteq> c"
    using cont ascii_not_continuation [OF 2(2)] by blast
  then have m: "map ?g ?R = ?R"
    by (intro map_idI) simp
  have "map ?g xs = map ?g (?R @ ?D)"
    by (simp only: unit_rest_drop)
  then have xs: "map ?g xs = ?R @ map ?g ?D"
    by (simp only: map_append m)
  show ?case
  proof (cases "x = c")
    case True
    then have "?R = []"
      using 2(2) by simp
    with True ih show ?thesis by simp
  next
    case False
    then have "(x # ?R = [c]) = False"
      by simp
    with False ih xs show ?thesis
      by (simp only: units.simps list.map concat.simps if_False append_Cons append_assoc)
  qed
qed

lemma replace_all_char:
  "ascii_char c \<Longrightarrow> rx_replace_all [One (Ch c)] [d] v = map (\<lambda>x. if x = c then d else x) v"
  by (simp add: rx_replace_all_def replace_all_char_units map_units_ascii)

lemma rx_here_greedy_dots:
  "\<forall>x\<in>set us. in_cls Dot x \<Longrightarrow>
   rx_here [Star Dot, One (Ch q)] us =
     (if [q] \<in> set us then Some (rev (takeWhile (\<lambda>x. x \<noteq> [q]) (rev us))) else None)"
proof (induction us)
  case Nil
  show ?case by simp
next
  case (Cons x xs)
  then have ih: "rx_here [Star Dot, One (Ch q)] xs =
     (if [q] \<in> set xs then Some (rev (takeWhile (\<lambda>x. x \<noteq> [q]) (rev xs))) else None)"
    and x: "in_cls Dot x"
    by simp_all
  show ?case
  proof (cases "[q] \<in> set xs")
    case True
    then have "takeWhile (\<lambda>x. x \<noteq> [q]) (rev xs @ [x]) = takeWhile (\<lambda>x. x \<noteq> [q]) (rev xs)"
      by (simp add: takeWhile_append1)
    with True ih x show ?thesis by (simp del: in_cls.simps)
  next
    case False
    then have all: "\<forall>y\<in>set (rev xs). y \<noteq> [q]"
      by auto
    have tw: "takeWhile (\<lambda>x. x \<noteq> [q]) (rev xs @ [x]) = rev xs @ takeWhile (\<lambda>x. x \<noteq> [q]) [x]"
      using all by (intro takeWhile_append2) blast
    from False ih have none: "rx_here [Star Dot, One (Ch q)] xs = None"
      by simp
    show ?thesis
    proof (cases "x = [q]")
      case True
      with False x none tw show ?thesis by (simp del: in_cls.simps) simp
    next
      case neq: False
      with False x none show ?thesis by (simp del: in_cls.simps) simp
    qed
  qed
qed

lemma parseQuery_step_eq:
  "parseQuery_step queries pair =
     (if takeWhile (\<lambda>c. c \<noteq> CHR ''='') pair = [] \<or> CHR ''='' \<notin> set pair then Inr queries
      else (case decodeURIComponent (takeWhile (\<lambda>c. c \<noteq> CHR ''='') pair) of
              Inl e \<Rightarrow> Inl e
            | Inr key \<Rightarrow>
                (case decodeURIComponent
                        (map (\<lambda>c. if c = CHR ''+'' then CHR '' '' else c)
                           (takeWhile (\<lambda>c. c \<noteq> CHR ''='')
                              (drop 1 (dropWhile (\<lambda>c. c \<noteq> CHR ''='') pair)))) of
                   Inl e \<Rightarrow> Inl e
                 | Inr val \<Rightarrow> Inr (obj_set key val queries))))"
proof -
  have plus: "ascii_char CHR ''+''"
    by (simp add: ascii_char_def)
  show ?thesis
    by (simp add: parseQuery_step_def split_on_first split_on_second replace_all_char [OF plus]
        cong: sum.case_cong)
qed

lemma no_more_equals:
  "equals_signs s \<le> 1 \<Longrightarrow> CHR ''='' \<notin> set (drop 1 (dropWhile (\<lambda>c. c \<noteq> CHR ''='') s))"
proof (induction s)
  case Nil
  show ?case by simp
next
  case (Cons x xs)
  show ?case
  proof (cases "x = CHR ''=''")
    case True
    with Cons.prems have "filter (\<lambda>c. c = CHR ''='') xs = []"
      by (simp add: equals_signs_def)
    then have "CHR ''='' \<notin> set xs"
      by (auto simp: filter_empty_conv)
    with True show ?thesis by simp
  next
    case False
    with Cons show ?thesis by (simp add: equals_signs_def)
  qed
qed

lemma parseQuery_step_spec:
  assumes "equals_signs pair \<le> 1"
  shows "parseQuery_step queries pair =
     (if kept_pair pair
      then (case decoded_pair pair of
              Inl e \<Rightarrow> Inl e
            | Inr entry \<Rightarrow> Inr (obj_set (fst entry) (snd entry) queries))
      else Inr queries)"
proof -
  have tw: "takeWhile (\<lambda>c. c \<noteq> CHR ''='') (drop 1 (dropWhile (\<lambda>c. c \<noteq> CHR ''='') pair)) =
      pair_value pair"
    unfolding pair_value_def
    using no_more_equals [OF assms] by (intro takeWhile_eq_all_conv [THEN iffD2]) blast
  have step: "parseQuery_step queries pair =
     (if \<not> kept_pair pair then Inr queries
      else (case decodeURIComponent (pair_key pair) of
              Inl e \<Rightarrow> Inl e
            | Inr key \<Rightarrow>
                (case decodeURIComponent (plus_to_space (pair_value pair)) of
                   Inl e \<Rightarrow> Inl e
                 | Inr val \<Rightarrow> Inr (obj_set key val queries))))"
    unfolding parseQuery_step_eq tw kept_pair_def pair_key_def plus_to_space_def
    by simp
  show ?thesis
  proof (cases "kept_pair pair")
    case False
    then show ?thesis by (simp add: step)
  next
    case True
    show ?thesis
    proof (cases "decodeURIComponent (pair_key pair)")
      case (Inl e)
      with True show ?thesis by (simp add: step decoded_pair_def)
    next
      case key: (Inr k)
      show ?thesis
      proof (cases "decodeURIComponent (plus_to_space (pair_value pair))")
        case (Inl e)
        with True key show ?thesis by (simp add: step decoded_pair_def)
      next
        case (Inr v)
        with True key show ?thesis by (simp add: step decoded_pair_def)
      qed
    qed
  qed
qed

lemma decodeURIComponent_error: "decodeURIComponent s = Inl e \<Longrightarrow> e = URIError"
  by (simp add: decodeURIComponent_def split: option.splits if_splits)

lemma decoded_pair_error: "decoded_pair pair = Inl e \<Longrightarrow> e = URIError"
  unfolding decoded_pair_def
  by (auto split: sum.splits dest: decodeURIComponent_error)

lemma parseQuery_reduce_spec:
  "\<forall>pair\<in>set ps. equals_signs pair \<le> 1 \<Longrightarrow>
   parseQuery_reduce acc ps =
     (if list_ex isl (map decoded_pair (filter kept_pair ps)) then Inl URIError
      else Inr (enter_all acc (map projr (map decoded_pair (filter kept_pair ps)))))"
proof (induction ps arbitrary: acc)
  case Nil
  show ?case by (simp add: enter_all_def)
next
  case (Cons pair ps)
  then have one: "equals_signs pair \<le> 1"
    and ih: "\<And>acc. parseQuery_reduce acc ps =
     (if list_ex isl (map decoded_pair (filter kept_pair ps)) then Inl URIError
      else Inr (enter_all acc (map projr (map decoded_pair (filter kept_pair ps)))))"
    by simp_all
  show ?case
  proof (cases "kept_pair pair")
    case False
    then show ?thesis
      by (simp add: parseQuery_step_spec [OF one] ih)
  next
    case True
    show ?thesis
    proof (cases "decoded_pair pair")
      case (Inl e)
      with decoded_pair_error [OF Inl] True show ?thesis
        by (simp add: parseQuery_step_spec [OF one])
    next
      case (Inr entry)
      with True show ?thesis
        by (simp add: parseQuery_step_spec [OF one] ih enter_all_def)
    qed
  qed
qed

lemma replace_units_match:
  "us \<noteq> [] \<Longrightarrow> rx_here p us = Some r \<Longrightarrow> replace_units p repl us = repl @ concat r"
  by (cases us) simp_all

lemma parseQuery_suffix:
  assumes q: "CHR ''?'' \<notin> set qs"
    and dots: "\<forall>x\<in>set (units (pth @ ''?'' @ qs)). x \<notin> set line_terminators"
  shows "parseQuery (pth @ ''?'' @ qs) = parseQuery_reduce [] (split_on CHR ''&'' qs)"
proof -
  let ?u = "pth @ CHR ''?'' # qs"
  let ?m = "[CHR ''?'']"
  have a: "ascii_char CHR ''?''"
    by (simp add: ascii_char_def)
  have us: "units ?u = units pth @ ?m # units qs"
    by (rule units_append_ascii [OF a])
  have notin: "?m \<notin> set (units qs)"
    using q unit_in_units by blast
  have "takeWhile (\<lambda>x. x \<noteq> ?m) (rev (units qs) @ ?m # rev (units pth)) =
      rev (units qs) @ takeWhile (\<lambda>x. x \<noteq> ?m) (?m # rev (units pth))"
    using notin by (intro takeWhile_append2) auto
  then have tw: "rev (takeWhile (\<lambda>x. x \<noteq> ?m) (rev (units ?u))) = units qs"
    unfolding us by simp
  have d: "\<forall>x\<in>set (units ?u). in_cls Dot x"
    using dots by simp
  have inn: "?m \<in> set (units ?u)"
    unfolding us by simp
  have "rx_here [Star Dot, One (Ch CHR ''?'')] (units ?u) = Some (units qs)"
    unfolding rx_here_greedy_dots [OF d] tw using inn by simp
  moreover have "units ?u \<noteq> []"
    unfolding us by simp
  ultimately have "replace_units [Star Dot, One (Ch CHR ''?'')] [] (units ?u) = [] @ concat (units qs)"
    by (intro replace_units_match)
  then have "rx_replace [Star Dot, One (Ch CHR ''?'')] [] ?u = qs"
    by (simp add: rx_replace_def)
  then show ?thesis
    by (simp add: parseQuery_def str_includes_def)
qed

text \<open>
  The order of the resolution when the lookup finds an own entry or nothing: the exact
  match, then the parameterized match, then the regular-expression match, then (for
  \<open>GET\<close>) the static match, then the fallback; the static routes matter only for
  \<open>GET\<close> and only when the three others have failed.
\<close>

lemma precedence_order:
  fixes env :: Env and app :: Aqua and req :: Request and h :: store
  defines "p \<equiv> parseRequestPath env (url req)"
  defines "exact \<equiv> obj_get (routes app) (req_method req @ p)"
  defines "param \<equiv> findRouteWithMatchingURLParameters env p (routes app)"
  defines "regex \<equiv> findMatchingRegexRoute env p (regexRoutes app)"
  defines "static \<equiv> findMatchingStaticRoute env p (staticRoutes app)"
  shows
  "(\<forall>r. exact = Own r \<longrightarrow>
      resolve env app req h = respondToRequest app req p (PlainRoute r) False h) \<and>
   (\<forall>r. exact = Absent \<and> param = Some r \<longrightarrow>
      resolve env app req h = respondToRequest app req p (PlainRoute r) True h) \<and>
   (\<forall>r. exact = Absent \<and> param = None \<and> regex = Some r \<longrightarrow>
      resolve env app req h = respondToRequest app req p (RxRoute r) False h) \<and>
   (\<forall>s. exact = Absent \<and> param = None \<and> regex = None \<and> req_method req = ''GET'' \<and>
        static = Some s \<longrightarrow>
      resolve env app req h = Inr (respondToStaticRequest env req p s, h)) \<and>
   (exact = Absent \<and> param = None \<and> regex = None \<and>
    (req_method req \<noteq> ''GET'' \<or> static = None) \<longrightarrow>
      resolve env app req h = respondWithNoRouteFound app req h) \<and>
   (req_method req \<noteq> ''GET'' \<or> exact \<noteq> Absent \<or> param \<noteq> None \<or> regex \<noteq> None \<longrightarrow>
      (\<forall>f ss. resolve (env\<lparr>findMatchingStaticRoute := f\<rparr>) (app\<lparr>staticRoutes := ss\<rparr>) req h =
              resolve env app req h))"
  unfolding p_def exact_def param_def regex_def static_def
  by (auto simp: resolve_def Let_def split: option.splits lookup.splits)

lemma Headers_get_appended:
  "Headers_get hs ''Location'' = None \<Longrightarrow>
   Headers_get (hs @ [(''location'', v)]) ''Location'' = Some v"
  by (simp add: Headers_get_def toLowerCase_def lower_char_def split: list.splits)

lemma Location_appended:
  "header_value_ok (strip_http_space t) \<Longrightarrow>
   Headers_append hs ''Location'' t = Inr (hs @ [(''location'', strip_http_space t)])"
  by (simp add: Headers_append_def header_name_ok_def token_chars_def toLowerCase_def
      lower_char_def)

lemma Location_refused:
  "\<not> header_value_ok (strip_http_space t) \<Longrightarrow> Headers_append hs ''Location'' t = Inl TypeError"
  by (simp add: Headers_append_def)

section \<open>The claims\<close>



text \<open>
  Claim C3. For a registered template and a requested path that it matches, the
  extraction gives each \<open>:name\<close> token, in the order of declaration, the run of
  characters other than \<open>/\<close> at the token's place. The code does so for
  \<open>/api/:action\<close> and \<open>/api/login\<close>, but not for a template with three parameters:
  the pattern built for the third token keeps the second token as literal text (the
  replacement on line 172 has no \<open>g\<close> flag), matches nothing, and the third value is
  the empty string; the request then gets the no-route-found response.
\<close>

theorem third_parameter_empty:
  "connectURLParameters three_route ''/a/1/b/2/c/3'' =
     Inr (Some [(''x'', Some ''1''), (''y'', Some ''2''), (''z'', Some '''')]) \<and>
   sent (resolve (spec_env demo_files) three_app (request ''GET'' ''/a/1/b/2/c/3'') empty_store) =
     Inr no_route_found \<and>
   connectURLParameters action_route ''/api/login'' = Inr (Some [(''action'', Some ''login'')])"
  by (simp add: resolve_def run_defs spec_env_defs demo_defs more_defs)

text \<open>
  Claim C4. The cookies of the constructed \<open>Request\<close> are the parse of the request's
  \<open>cookie\<close> header. \<open>parseCookies\<close> parses \<open>a=1; b=2\<close> and \<open>a=1;b=2\<close> as the
  claim says, but line 300 calls it only when the request has a header named
  \<open>cookies\<close>: a request that carries only \<open>cookie\<close> gets the empty map, in every
  environment and application.
\<close>

theorem cookie_header_not_parsed:
  "map_sum id req_cookies (make_request env app cookie_request) = Inr [] \<and>
   parseCookies (Headers_get (raw_headers cookie_request) ''cookie'') =
     Inr [(''a'', Some ''1''), (''b'', Some ''2'')] \<and>
   parseCookies (Some ''a=1;b=2'') = Inr [(''a'', Some ''1''), (''b'', Some ''2'')]"
  by (simp add: make_request_def cookie_request_def Headers_get_def toLowerCase_def
      lower_char_def truthy_def str_includes_def slash_end_rx_def parseCookies_def
      parseCookies_step_def trimLeft_def space_units_def string_defs Let_def)

text \<open>
  Claim C5. When a middleware returns a falsy result the dispatcher should still send a
  response with the no-content body. In the code the \<open>reduce\<close> passes the falsy result
  on (the remaining middlewares are skipped), and the assembly of the response then
  reads \<open>statusCode\<close> of it (line 233, and line 228 for a redirect), which is a
  \<open>TypeError\<close>: with a middleware that returns \<open>undefined\<close> the request ends in that
  exception and nothing is sent.
\<close>

theorem falsy_middleware_crashes:
  "reduce_middlewares mws req None h = Inr (None, h) \<and>
   assemble formattedResponse None h = Inl TypeError \<and>
   resolve (spec_env demo_files) (page_app [drop_response]) (request ''GET'' ''/page'')
     empty_store = Inl TypeError \<and>
   resolve (spec_env demo_files) (demo_app\<lparr>middlewares := [drop_response]\<rparr>)
     (request ''GET'' ''/hello'') empty_store = Inl TypeError"
proof -
  have skip: "reduce_middlewares mws req None h = Inr (None, h)"
    by (induction mws) simp_all
  have crash: "assemble formattedResponse None h = Inl TypeError"
    by (auto simp: assemble_def send_response_def split: option.splits sum.splits
        dest: cookie_headers_error Headers_append_error)
  have runs:
    "resolve (spec_env demo_files) (page_app [drop_response]) (request ''GET'' ''/page'')
       empty_store = Inl TypeError"
    "resolve (spec_env demo_files) (demo_app\<lparr>middlewares := [drop_response]\<rparr>)
       (request ''GET'' ''/hello'') empty_store = Inl TypeError"
    by (simp_all add: resolve_def run_defs spec_env_defs demo_defs more_defs)
  from skip crash runs show ?thesis by simp
qed

text \<open>
  Claim C6. The emitted headers, \<open>Set-Cookie\<close> entries and \<open>Location\<close> should come
  from the response that the middlewares return. The code reads them from the handler's
  response object (lines 219-227), whatever response the middlewares return, and only
  the status and the body from the middlewares' result. A middleware that returns a
  changed copy loses its headers, cookies and redirect; one that changes the handler's
  object in place keeps them.
\<close>

theorem headers_from_handler_response:
  "map_sum id (\<lambda>r. resp_headers (fst r)) (assemble formattedResponse (Some a) h) =
     (case cookie_headers (objs h formattedResponse) of
        Inl e \<Rightarrow> Inl e
      | Inr hs \<Rightarrow>
          (case truthy (redirect (objs h formattedResponse)) of
             None \<Rightarrow> Inr (Some hs)
           | Some t \<Rightarrow> map_sum id Some (Headers_append hs ''Location'' t))) \<and>
   sent (resolve (spec_env demo_files) (page_app [replace_response]) (request ''GET'' ''/page'')
           empty_store) =
     Inr \<lparr>status = None, resp_headers = Some [], resp_body = ''page''\<rparr> \<and>
   sent (resolve (spec_env demo_files) (page_app [change_in_place]) (request ''GET'' ''/page'')
           empty_store) =
     Inr \<lparr>status = Some 301,
          resp_headers = Some [(''x-frame-options'', ''DENY''), (''set-cookie'', ''sid=1''),
                               (''location'', ''/login'')],
          resp_body = ''page''\<rparr>"
proof -
  have general:
    "map_sum id (\<lambda>r. resp_headers (fst r)) (assemble formattedResponse (Some a) h) =
     (case cookie_headers (objs h formattedResponse) of
        Inl e \<Rightarrow> Inl e
      | Inr hs \<Rightarrow>
          (case truthy (redirect (objs h formattedResponse)) of
             None \<Rightarrow> Inr (Some hs)
           | Some t \<Rightarrow> map_sum id Some (Headers_append hs ''Location'' t)))"
    by (simp add: assemble_def send_response_def split: option.splits sum.splits)
  have runs:
    "sent (resolve (spec_env demo_files) (page_app [replace_response]) (request ''GET'' ''/page'')
             empty_store) =
       Inr \<lparr>status = None, resp_headers = Some [], resp_body = ''page''\<rparr>"
    "sent (resolve (spec_env demo_files) (page_app [change_in_place]) (request ''GET'' ''/page'')
             empty_store) =
       Inr \<lparr>status = Some 301,
            resp_headers = Some [(''x-frame-options'', ''DENY''), (''set-cookie'', ''sid=1''),
                                 (''location'', ''/login'')],
            resp_body = ''page''\<rparr>"
    by (simp_all add: resolve_def run_defs spec_env_defs demo_defs more_defs)
  from general runs show ?thesis by simp
qed

text \<open>
  Claim C10. Nothing guards the call of a handler. When the handler of the route that
  answers a request throws, or the fallback handler does, \<open>respondToRequest\<close> and
  \<open>respondWithNoRouteFound\<close> end in that exception without sending a response, and so
  does the resolution of the request; the exception ends the loop of \<open>handleRequests\<close>:
  neither this request nor the ones after it get a reply.
\<close>

theorem handler_exception_escapes:
  "(\<forall>req'. set_matches req p rt = Inr req' \<and> route_handler rt req' h = Inl e \<longrightarrow>
       respondToRequest app req p rt False h = Inl e) \<and>
   (\<forall>ps req'. route_parameters rt p = Inr ps \<and> Some [] \<notin> set (obj_values ps) \<and>
       set_matches (req\<lparr>parameters := ps\<rparr>) p rt = Inr req' \<and>
       route_handler rt req' h = Inl e \<longrightarrow>
       respondToRequest app req p rt True h = Inl e) \<and>
   (\<forall>handler. fallbackHandler app = Some handler \<and> handler req h = Inl e \<longrightarrow>
       respondWithNoRouteFound app req h = Inl e) \<and>
   (\<forall>r. obj_get (routes app) (req_method req @ parseRequestPath env (url req)) = Own r \<and>
       responseHandler r req h = Inl e \<longrightarrow>
       resolve env app req h = Inl e) \<and>
   (\<forall>rawRequest rest.
       make_request env app rawRequest = Inr req \<and> resolve env app req h = Inl e \<longrightarrow>
       handleRequests env app (rawRequest # rest) h = ([], Some e))"
  by (auto simp: respondToRequest_def callHandler_def respondWithNoRouteFound_def resolve_def
      handleRequest_def set_matches_def route_handler_def Let_def)

theorem handler_exception_escapes_witness:
  "handleRequests (spec_env demo_files) boom_app [raw_get ''/boom'', raw_get ''/hello'']
     empty_store = ([], Some (Thrown ''boom'')) \<and>
   handleRequests (spec_env demo_files) boom_app [raw_get ''/nothing'', raw_get ''/hello'']
     empty_store = ([], Some (Thrown ''boom'')) \<and>
   handleRequests (spec_env demo_files) boom_app [raw_get ''/hello'', raw_get ''/hello'']
     empty_store =
     ([\<lparr>status = None, resp_headers = Some [], resp_body = ''exact''\<rparr>,
       \<lparr>status = None, resp_headers = Some [], resp_body = ''exact''\<rparr>], None)"
proof -
  let ?env = "spec_env demo_files"
  note T = handler_exception_escapes [where env = ?env and app = boom_app and h = empty_store
      and e = "Thrown ''boom''"]
  note look = spec_env_defs demo_defs obj_get_def obj_values_def own_entries_def
      array_index_def prototype_members_def boom_app_def boom_route_def boom_def
  have mk: "\<And>u. \<not> str_includes u CHR ''?'' \<Longrightarrow>
      make_request ?env boom_app (raw_get u) = Inr (request ''GET'' u)"
    by (rule make_request_raw_get) (simp_all add: boom_app_def default_options_def)
  have r1: "resolve ?env boom_app (request ''GET'' ''/boom'') empty_store = Inl (Thrown ''boom'')"
    using T [of "request ''GET'' ''/boom''", THEN conjunct2, THEN conjunct2, THEN conjunct2,
             THEN conjunct1]
    by (simp add: look)
  have l1: "handleRequests ?env boom_app [raw_get ''/boom'', raw_get ''/hello''] empty_store =
      ([], Some (Thrown ''boom''))"
    using T [of "request ''GET'' ''/boom''", THEN conjunct2, THEN conjunct2, THEN conjunct2,
             THEN conjunct2] r1 mk [of "''/boom''"]
    by (simp add: str_includes_def)
  have f2: "respondWithNoRouteFound boom_app (request ''GET'' ''/nothing'') empty_store =
      Inl (Thrown ''boom'')"
    using T [of "request ''GET'' ''/nothing''", THEN conjunct2, THEN conjunct2, THEN conjunct1]
    by (simp add: look)
  have r2: "resolve ?env boom_app (request ''GET'' ''/nothing'') empty_store =
      Inl (Thrown ''boom'')"
    using f2 by (simp add: resolve_def look Let_def)
  have l2: "handleRequests ?env boom_app [raw_get ''/nothing'', raw_get ''/hello''] empty_store =
      ([], Some (Thrown ''boom''))"
    using T [of "request ''GET'' ''/nothing''", THEN conjunct2, THEN conjunct2, THEN conjunct2,
             THEN conjunct2] r2 mk [of "''/nothing''"]
    by (simp add: str_includes_def)
  have l3: "handleRequests ?env boom_app [raw_get ''/hello'', raw_get ''/hello'']
     empty_store =
     ([\<lparr>status = None, resp_headers = Some [], resp_body = ''exact''\<rparr>,
       \<lparr>status = None, resp_headers = Some [], resp_body = ''exact''\<rparr>], None)"
    using mk [of "''/hello''"]
    by (simp add: handleRequest_def resolve_def run_defs look str_includes_def)
  show ?thesis using l1 l2 l3 by simp
qed

text \<open>
  Claim C9. For a \<open>GET\<close> request matched by a static route (the route's public prefix
  starts the requested path), the file that is read is the route's folder followed by
  the requested path without the prefix: its contents are the body of the response, and
  a failed read gives the 404 \<open>File not found\<close>. No \<open>..\<close> segment is rejected or
  resolved: the request \<open>/static/../secret.txt\<close> reads \<open>public/../secret.txt\<close>, a
  file outside the folder \<open>public/\<close>, and gets its contents. (The headers are built
  before the file is read: when \<open>Headers\<close> refuses the content type found for the
  extension, no file is read and the answer is the same 404.)
\<close>

theorem static_path_not_confined:
  fixes env :: Env and sr :: StaticRoute and requestedPath :: string and req :: Request
  defines "resourcePath \<equiv> drop (length (static_path sr)) requestedPath"
  defines "contentType \<equiv>
     (if rx_replace extension_rx [] resourcePath \<noteq> []
      then getContentType env (rx_replace extension_rx [] resourcePath) else None)"
  defines "hdrs \<equiv>
     (case truthy contentType of
        Some t \<Rightarrow> Headers (Some [(''Content-Type'', t)])
      | None \<Rightarrow> Headers None)"
  shows
  "(startsWith requestedPath (static_path sr) \<longrightarrow>
      (\<forall>hs bytes. hdrs = Inr hs \<and> readFile env (folder sr @ resourcePath) = Some bytes \<longrightarrow>
         respondToStaticRequest env req requestedPath sr =
           \<lparr>status = None, resp_headers = Some hs, resp_body = bytes\<rparr>) \<and>
      (readFile env (folder sr @ resourcePath) = None \<longrightarrow>
         respondToStaticRequest env req requestedPath sr =
           \<lparr>status = Some 404, resp_headers = None, resp_body = ''File not found''\<rparr>) \<and>
      (\<forall>e. hdrs = Inl e \<longrightarrow>
         respondToStaticRequest env req requestedPath sr =
           \<lparr>status = Some 404, resp_headers = None, resp_body = ''File not found''\<rparr>)) \<and>
   ''..'' \<in> set (split_on CHR ''/'' ''/static/../secret.txt'') \<and>
   spec_findMatchingStaticRoute ''/static/../secret.txt'' (staticRoutes demo_app) =
     Some public_route \<and>
   folder public_route @ drop (length (static_path public_route)) ''/static/../secret.txt'' =
     ''public/../secret.txt'' \<and>
   \<not> inside (folder public_route) ''public/../secret.txt'' \<and>
   sent (resolve (spec_env demo_files) demo_app (request ''GET'' ''/static/../secret.txt'')
           empty_store) =
     Inr \<lparr>status = None, resp_headers = Some [], resp_body = ''secret''\<rparr>"
proof -
  have general: "startsWith requestedPath (static_path sr) \<longrightarrow>
      (\<forall>hs bytes. hdrs = Inr hs \<and> readFile env (folder sr @ resourcePath) = Some bytes \<longrightarrow>
         respondToStaticRequest env req requestedPath sr =
           \<lparr>status = None, resp_headers = Some hs, resp_body = bytes\<rparr>) \<and>
      (readFile env (folder sr @ resourcePath) = None \<longrightarrow>
         respondToStaticRequest env req requestedPath sr =
           \<lparr>status = Some 404, resp_headers = None, resp_body = ''File not found''\<rparr>) \<and>
      (\<forall>e. hdrs = Inl e \<longrightarrow>
         respondToStaticRequest env req requestedPath sr =
           \<lparr>status = Some 404, resp_headers = None, resp_body = ''File not found''\<rparr>)"
    unfolding hdrs_def contentType_def resourcePath_def
    by (auto simp: respondToStaticRequest_def remove_first_prefix Let_def file_not_found_def
        split: sum.splits option.splits)
  have dots: "''..'' \<in> set (split_on CHR ''/'' ''/static/../secret.txt'')"
    by simp
  have found: "spec_findMatchingStaticRoute ''/static/../secret.txt'' (staticRoutes demo_app) =
     Some public_route"
    by (simp add: spec_findMatchingStaticRoute_def demo_app_def public_route_def)
  have fpath: "folder public_route @ drop (length (static_path public_route)) ''/static/../secret.txt'' =
     ''public/../secret.txt''"
    by (simp add: public_route_def)
  have out: "\<not> inside (folder public_route) ''public/../secret.txt''"
    by (simp add: inside_def resolved_def public_route_def)
  have run: "sent (resolve (spec_env demo_files) demo_app (request ''GET'' ''/static/../secret.txt'')
           empty_store) =
     Inr \<lparr>status = None, resp_headers = Some [], resp_body = ''secret''\<rparr>"
    by (simp add: resolve_def run_defs spec_env_defs demo_defs)
  show ?thesis using general dots found fpath out run by blast
qed

theorem static_path_not_confined_witness:
  "startsWith ''/static/app.js'' (static_path public_route) \<and>
   readFile (spec_env demo_files) ''public/app.js'' = Some ''js'' \<and>
   respondToStaticRequest (spec_env demo_files) (request ''GET'' ''/static/app.js'')
     ''/static/app.js'' public_route =
     \<lparr>status = None, resp_headers = Some [], resp_body = ''js''\<rparr> \<and>
   startsWith ''/static/none'' (static_path public_route) \<and>
   readFile (spec_env demo_files) ''public/none'' = None \<and>
   respondToStaticRequest (spec_env demo_files) (request ''GET'' ''/static/none'')
     ''/static/none'' public_route =
     \<lparr>status = Some 404, resp_headers = None, resp_body = ''File not found''\<rparr>"
proof -
  note T = static_path_not_confined [where env = "spec_env demo_files" and sr = public_route,
      THEN conjunct1]
  have p1: "startsWith ''/static/app.js'' (static_path public_route)"
    and p2: "startsWith ''/static/none'' (static_path public_route)"
    by (simp_all add: public_route_def)
  have f1: "readFile (spec_env demo_files)
      (folder public_route @ drop (length (static_path public_route)) ''/static/app.js'') =
      Some ''js''"
    and f2: "readFile (spec_env demo_files)
      (folder public_route @ drop (length (static_path public_route)) ''/static/none'') = None"
    by (simp_all add: public_route_def spec_env_def demo_files_def)
  have h1: "(case truthy
               (if rx_replace extension_rx []
                     (drop (length (static_path public_route)) ''/static/app.js'') \<noteq> []
                then getContentType (spec_env demo_files)
                       (rx_replace extension_rx []
                          (drop (length (static_path public_route)) ''/static/app.js''))
                else None) of
              Some t \<Rightarrow> Headers (Some [(''Content-Type'', t)])
            | None \<Rightarrow> Headers None) = Inr []"
    by (simp add: spec_env_def truthy_def Headers_def)
  from T [of "''/static/app.js''" "request ''GET'' ''/static/app.js''"] p1 f1 h1
  have a: "respondToStaticRequest (spec_env demo_files)
      (request ''GET'' ''/static/app.js'') ''/static/app.js'' public_route =
      \<lparr>status = None, resp_headers = Some [], resp_body = ''js''\<rparr>"
    by blast
  from T [of "''/static/none''" "request ''GET'' ''/static/none''"] p2 f2
  have b: "respondToStaticRequest (spec_env demo_files) (request ''GET'' ''/static/none'')
     ''/static/none'' public_route =
     \<lparr>status = Some 404, resp_headers = None, resp_body = ''File not found''\<rparr>"
    by blast
  show ?thesis using a b p1 p2 f1 f2 by (simp add: public_route_def)
qed

text \<open>
  Claim C2 says that after a parameterized match with an empty parameter value the
  resolution goes on with the other candidates, the regular-expression routes and the
  static routes. The code does not: for \<open>GET /api/\<close> the route \<open>/api/:action\<close>
  matches with the empty value, the regular-expression route would answer the request,
  and the response is the 404 of \<open>respondWithNoRouteFound\<close>.
\<close>

theorem empty_parameter_counterexample:
  "spec_findRouteWithMatchingURLParameters ''/api/'' (routes demo_app) = Some action_route \<and>
   connectURLParameters action_route ''/api/'' = Inr (Some [(''action'', Some '''')]) \<and>
   spec_findMatchingRegexRoute ''/api/'' (regexRoutes demo_app) = Some api_regex_route \<and>
   sent (respondToRequest demo_app (request ''GET'' ''/api/'') ''/api/''
           (RxRoute api_regex_route) False empty_store) =
     Inr \<lparr>status = None, resp_headers = Some [], resp_body = ''regex''\<rparr> \<and>
   sent (resolve (spec_env demo_files) demo_app (request ''GET'' ''/api/'') empty_store) =
     Inr no_route_found"
  by (simp add: resolve_def run_defs spec_env_defs demo_defs)

text \<open>
  Claim C2, as the code has it. When the parameterized match gives a route and some
  extracted parameter value is the empty string, \<open>respondToRequest\<close> stores the
  parameters in the request and answers with \<open>respondWithNoRouteFound\<close> at once: the
  fallback handler if one is registered, else the fixed 404. The regular-expression
  routes and the static routes are not consulted: the answer does not depend on them.
\<close>

theorem empty_parameter_no_route_found:
  fixes env :: Env and app :: Aqua and req :: Request and h :: store
  defines "p \<equiv> parseRequestPath env (url req)"
  shows
  "obj_get (routes app) (req_method req @ p) = Absent \<and>
   findRouteWithMatchingURLParameters env p (routes app) = Some r \<and>
   connectURLParameters r p = Inr (Some ps) \<and> Some [] \<in> set (obj_values ps) \<longrightarrow>
     resolve env app req h = respondWithNoRouteFound app (req\<lparr>parameters := ps\<rparr>) h \<and>
     (\<forall>rs ss. resolve env (app\<lparr>regexRoutes := rs, staticRoutes := ss\<rparr>) req h =
              resolve env app req h) \<and>
     (fallbackHandler app = None \<longrightarrow> resolve env app req h = Inr (no_route_found, h))"
  unfolding p_def
  by (auto simp: resolve_def respondToRequest_def route_parameters_def
      respondWithNoRouteFound_def Let_def)

theorem empty_parameter_no_route_found_witness:
  "obj_get (routes demo_app) (req_method (request ''GET'' ''/api/'') @ ''/api/'') = Absent \<and>
   findRouteWithMatchingURLParameters (spec_env demo_files) ''/api/'' (routes demo_app) =
     Some action_route \<and>
   connectURLParameters action_route ''/api/'' = Inr (Some [(''action'', Some '''')]) \<and>
   Some [] \<in> set (obj_values [(''action'', Some '''')]) \<and>
   resolve (spec_env demo_files) demo_app (request ''GET'' ''/api/'') empty_store =
     Inr (no_route_found, empty_store)"
proof -
  let ?env = "spec_env demo_files"
  let ?req = "request ''GET'' ''/api/''"
  note vals = obj_values_def own_entries_def array_index_def
  have p: "parseRequestPath ?env (url ?req) = ''/api/''"
    by (simp add: spec_env_defs request_def)
  have a: "obj_get (routes demo_app) (req_method ?req @ ''/api/'') = Absent"
    by (simp add: demo_defs obj_get_def prototype_members_def)
  have b: "findRouteWithMatchingURLParameters ?env ''/api/'' (routes demo_app) = Some action_route"
    by (simp add: spec_env_defs demo_defs vals string_defs)
  have c: "connectURLParameters action_route ''/api/'' = Inr (Some [(''action'', Some '''')])"
    by (simp add: run_defs demo_defs)
  have d: "Some [] \<in> set (obj_values [(''action'', Some '''')])"
    by (simp add: vals)
  have e: "fallbackHandler demo_app = None"
    by (simp add: demo_app_def)
  from empty_parameter_no_route_found [of demo_app ?req ?env action_route
      "[(''action'', Some '''')]" empty_store] a b c d e
  have "resolve ?env demo_app ?req empty_store = Inr (no_route_found, empty_store)"
    unfolding p by blast
  with a b c d show ?thesis by blast
qed

text \<open>
  Claim C8 says that every response whose \<open>redirect\<close> is set and whose \<open>statusCode\<close>
  is unset is emitted with status 301 and a \<open>Location\<close> header whose value is the
  redirect target, and that an explicit \<open>statusCode\<close> is kept. With the redirect
  \<open>/a\<close>, line feed, \<open>b\<close> nothing is emitted: \<open>Headers\<close> refuses the value and the
  \<open>TypeError\<close> escapes, from a route and from the fallback handler. The redirect
  \<open>""\<close> is set but falsy: no \<open>Location\<close> and no 301. The value of \<open>Location\<close> for
  the redirect \<open>" /login"\<close> is \<open>/login\<close>, without the space. And the explicit
  \<open>statusCode\<close> 0 is replaced by 301.
\<close>

theorem redirect_counterexample:
  "resolve (spec_env demo_files) (redirect_app (''/a'' @ [CHR 0x0A] @ ''b'') None)
     (request ''GET'' ''/dashboard'') empty_store = Inl TypeError \<and>
   resolve (spec_env demo_files) (redirect_app (''/a'' @ [CHR 0x0A] @ ''b'') None)
     (request ''GET'' ''/other'') empty_store = Inl TypeError \<and>
   sent (resolve (spec_env demo_files) (redirect_app [] None) (request ''GET'' ''/dashboard'')
           empty_store) =
     Inr \<lparr>status = None, resp_headers = Some [],
          resp_body = ''No response content provided.''\<rparr> \<and>
   sent (resolve (spec_env demo_files) (redirect_app '' /login'' None)
           (request ''GET'' ''/dashboard'') empty_store) =
     Inr \<lparr>status = Some 301, resp_headers = Some [(''location'', ''/login'')],
          resp_body = ''No response content provided.''\<rparr> \<and>
   sent (resolve (spec_env demo_files) (redirect_app ''/login'' (Some 0))
           (request ''GET'' ''/dashboard'') empty_store) =
     Inr \<lparr>status = Some 301, resp_headers = Some [(''location'', ''/login'')],
          resp_body = ''No response content provided.''\<rparr>"
  by (simp add: resolve_def run_defs spec_env_defs demo_defs redirect_defs)

text \<open>
  Claim C8, as the code has it, for a response object \<open>f\<close> that a handler returns and
  the middlewares hand on (or that the fallback handler returns), and whose own headers
  and cookies \<open>Headers\<close> accepts. When the redirect is a non-empty string and, without
  the white space around it, a legal header value, the emitted headers are those of the
  response followed by a \<open>Location\<close> entry with that value, and the status is the
  \<open>statusCode\<close> when it is set and not 0, and 301 otherwise. When it is not a legal
  header value, nothing is emitted and the \<open>TypeError\<close> escapes. When the redirect is
  unset or empty, no \<open>Location\<close> entry is added and no 301 is set: the status is the
  \<open>statusCode\<close> as it is on a route, and on the fallback 404 when it is unset or 0.
  This holds for a route with and without URL parameters.
\<close>

theorem redirect_defaulting:
  "((if uses
     then route_parameters rt p = Inr ps \<and> Some [] \<notin> set (obj_values ps) \<and>
          rq = req\<lparr>parameters := ps\<rparr>
     else rq = req) \<and>
    set_matches rq p rt = Inr req' \<and> route_handler rt req' h = Inr (RawObject f, ha) \<and>
    (if length (middlewares app) > 0
     then reduce_middlewares (middlewares app) req' (Some f) ha
     else Inr (Some f, ha)) = Inr (Some f, hb) \<and>
    cookie_headers (objs hb f) = Inr hs \<longrightarrow>
      (case truthy (redirect (objs hb f)) of
         Some t \<Rightarrow>
           (if header_value_ok (strip_http_space t)
            then sent (respondToRequest app req p rt uses h) =
                   Inr \<lparr>status = Some (case statusCode (objs hb f) of
                                          None \<Rightarrow> 301
                                        | Some n \<Rightarrow> (if n = 0 then 301 else n)),
                        resp_headers = Some (hs @ [(''location'', strip_http_space t)]),
                        resp_body = or_str (content (objs hb f))
                                      ''No response content provided.''\<rparr>
            else respondToRequest app req p rt uses h = Inl TypeError)
       | None \<Rightarrow>
           sent (respondToRequest app req p rt uses h) =
             Inr \<lparr>status = statusCode (objs hb f), resp_headers = Some hs,
                  resp_body = or_str (content (objs hb f))
                                ''No response content provided.''\<rparr>)) \<and>
   (fallbackHandler app = Some handler \<and> handler req h = Inr (RawObject f, ha) \<and>
    cookie_headers (objs ha f) = Inr hs \<longrightarrow>
      (case truthy (redirect (objs ha f)) of
         Some t \<Rightarrow>
           (if header_value_ok (strip_http_space t)
            then sent (respondWithNoRouteFound app req h) =
                   Inr \<lparr>status = Some (case statusCode (objs ha f) of
                                          None \<Rightarrow> 301
                                        | Some n \<Rightarrow> (if n = 0 then 301 else n)),
                        resp_headers = Some (hs @ [(''location'', strip_http_space t)]),
                        resp_body = or_str (content (objs ha f))
                                      ''No fallback response content provided.''\<rparr>
            else respondWithNoRouteFound app req h = Inl TypeError)
       | None \<Rightarrow>
           sent (respondWithNoRouteFound app req h) =
             Inr \<lparr>status = Some (case statusCode (objs ha f) of
                                    None \<Rightarrow> 404
                                  | Some n \<Rightarrow> (if n = 0 then 404 else n)),
                  resp_headers = Some hs,
                  resp_body = or_str (content (objs ha f))
                                ''No fallback response content provided.''\<rparr>)) \<and>
   (Headers_get hs ''Location'' = None \<longrightarrow>
      Headers_get (hs @ [(''location'', v)]) ''Location'' = Some v)"
proof (intro conjI impI)
  assume "(if uses
     then route_parameters rt p = Inr ps \<and> Some [] \<notin> set (obj_values ps) \<and>
          rq = req\<lparr>parameters := ps\<rparr>
     else rq = req) \<and>
    set_matches rq p rt = Inr req' \<and> route_handler rt req' h = Inr (RawObject f, ha) \<and>
    (if length (middlewares app) > 0
     then reduce_middlewares (middlewares app) req' (Some f) ha
     else Inr (Some f, ha)) = Inr (Some f, hb) \<and>
    cookie_headers (objs hb f) = Inr hs"
  then have rq: "if uses
     then route_parameters rt p = Inr ps \<and> Some [] \<notin> set (obj_values ps) \<and>
          rq = req\<lparr>parameters := ps\<rparr>
     else rq = req"
    and sm: "set_matches rq p rt = Inr req'"
    and rh: "route_handler rt req' h = Inr (RawObject f, ha)"
    and mw: "(if length (middlewares app) > 0
     then reduce_middlewares (middlewares app) req' (Some f) ha
     else Inr (Some f, ha)) = Inr (Some f, hb)"
    and ch: "cookie_headers (objs hb f) = Inr hs"
    by simp_all
  have call: "respondToRequest app req p rt uses h = callHandler app rq p rt h"
    using rq by (cases uses) (simp_all add: respondToRequest_def)
  have asm: "callHandler app rq p rt h = assemble f (Some f) hb"
    using sm rh mw by (simp add: callHandler_def formatRawResponse_def)
  show "case truthy (redirect (objs hb f)) of
         Some t \<Rightarrow>
           (if header_value_ok (strip_http_space t)
            then sent (respondToRequest app req p rt uses h) =
                   Inr \<lparr>status = Some (case statusCode (objs hb f) of
                                          None \<Rightarrow> 301
                                        | Some n \<Rightarrow> (if n = 0 then 301 else n)),
                        resp_headers = Some (hs @ [(''location'', strip_http_space t)]),
                        resp_body = or_str (content (objs hb f))
                                      ''No response content provided.''\<rparr>
            else respondToRequest app req p rt uses h = Inl TypeError)
       | None \<Rightarrow>
           sent (respondToRequest app req p rt uses h) =
             Inr \<lparr>status = statusCode (objs hb f), resp_headers = Some hs,
                  resp_body = or_str (content (objs hb f))
                                ''No response content provided.''\<rparr>"
    unfolding call asm
    by (simp add: assemble_def ch send_response_def set_statusCode_def or_num_def sent_def
        Location_appended Location_refused split: option.splits)
next
  assume "fallbackHandler app = Some handler \<and> handler req h = Inr (RawObject f, ha) \<and>
    cookie_headers (objs ha f) = Inr hs"
  then show "case truthy (redirect (objs ha f)) of
         Some t \<Rightarrow>
           (if header_value_ok (strip_http_space t)
            then sent (respondWithNoRouteFound app req h) =
                   Inr \<lparr>status = Some (case statusCode (objs ha f) of
                                          None \<Rightarrow> 301
                                        | Some n \<Rightarrow> (if n = 0 then 301 else n)),
                        resp_headers = Some (hs @ [(''location'', strip_http_space t)]),
                        resp_body = or_str (content (objs ha f))
                                      ''No fallback response content provided.''\<rparr>
            else respondWithNoRouteFound app req h = Inl TypeError)
       | None \<Rightarrow>
           sent (respondWithNoRouteFound app req h) =
             Inr \<lparr>status = Some (case statusCode (objs ha f) of
                                    None \<Rightarrow> 404
                                  | Some n \<Rightarrow> (if n = 0 then 404 else n)),
                  resp_headers = Some hs,
                  resp_body = or_str (content (objs ha f))
                                ''No fallback response content provided.''\<rparr>"
    by (simp add: respondWithNoRouteFound_def formatRawResponse_def set_statusCode_def
        or_num_def sent_def Let_def Location_appended Location_refused
        split: option.splits)
next
  assume "Headers_get hs ''Location'' = None"
  then show "Headers_get (hs @ [(''location'', v)]) ''Location'' = Some v"
    by (rule Headers_get_appended)
qed

theorem redirect_defaulting_witness:
  "sent (resolve (spec_env demo_files) (redirect_app ''/login'' None)
           (request ''GET'' ''/dashboard'') empty_store) =
     Inr \<lparr>status = Some 301, resp_headers = Some [(''location'', ''/login'')],
          resp_body = ''No response content provided.''\<rparr> \<and>
   sent (resolve (spec_env demo_files) (redirect_app ''/login'' (Some 302))
           (request ''GET'' ''/dashboard'') empty_store) =
     Inr \<lparr>status = Some 302, resp_headers = Some [(''location'', ''/login'')],
          resp_body = ''No response content provided.''\<rparr> \<and>
   sent (resolve (spec_env demo_files) (redirect_app ''/login'' None)
           (request ''GET'' ''/other'') empty_store) =
     Inr \<lparr>status = Some 301, resp_headers = Some [(''location'', ''/login'')],
          resp_body = ''No fallback response content provided.''\<rparr> \<and>
   sent (resolve (spec_env demo_files) (redirect_app [] None)
           (request ''GET'' ''/other'') empty_store) =
     Inr \<lparr>status = Some 404, resp_headers = Some [],
          resp_body = ''No fallback response content provided.''\<rparr> \<and>
   route_parameters (PlainRoute go_route) ''/go/x'' = Inr [(''where'', Some ''x'')] \<and>
   sent (respondToRequest (redirect_app ''/login'' None) (request ''GET'' ''/go/x'') ''/go/x''
           (PlainRoute go_route) True empty_store) =
     Inr \<lparr>status = Some 301, resp_headers = Some [(''location'', ''/login'')],
          resp_body = ''No response content provided.''\<rparr>"
proof -
  let ?env = "spec_env demo_files"
  let ?dash = "request ''GET'' ''/dashboard''"
  let ?other = "request ''GET'' ''/other''"
  let ?go = "request ''GET'' ''/go/x''"
  define res where "res t code = empty_Response\<lparr>statusCode := code, redirect := Some t\<rparr>"
    for t :: string and code :: "int option"
  define ha where "ha t code = snd (alloc (res t code) empty_store)" for t code
  have handler: "redirect_with t code req empty_store = Inr (RawObject 0, ha t code)"
    for t code req
    by (simp add: redirect_with_def ha_def res_def alloc_def empty_store_def)
  have obj: "objs (ha t code) 0 = res t code" for t code
    by (simp add: ha_def alloc_def empty_store_def)
  have fields: "redirect (res t code) = Some t" "statusCode (res t code) = code"
    "content (res t code) = None" "cookie_headers (res t code) = Inr []" for t code
    by (simp_all add: res_def empty_Response_def cookie_headers_def Headers_def)
  have login: "header_value_ok ''/login''" "strip_http_space ''/login'' = ''/login''"
    by (simp_all add: header_defs string_defs)
  have s1: "sent (respondToRequest (redirect_app ''/login'' code) ?dash ''/dashboard''
                    (PlainRoute (dashboard_route ''/login'' code)) False empty_store) =
      Inr \<lparr>status = Some (case code of None \<Rightarrow> 301 | Some n \<Rightarrow> (if n = 0 then 301 else n)),
           resp_headers = Some [(''location'', ''/login'')],
           resp_body = ''No response content provided.''\<rparr>" for code
    using redirect_defaulting [where app = "redirect_app ''/login'' code" and req = ?dash
        and rq = ?dash and uses = False
        and req' = ?dash and p = "''/dashboard''"
        and rt = "PlainRoute (dashboard_route ''/login'' code)"
        and h = empty_store and f = 0 and ha = "ha ''/login'' code" and hb = "ha ''/login'' code"
        and hs = "[]", THEN conjunct1]
    by (simp add: set_matches_def route_handler_def dashboard_route_def redirect_app_def
        handler obj fields or_str_def truthy_def login)
  have s2: "sent (respondWithNoRouteFound (redirect_app ''/login'' code) ?other empty_store) =
      Inr \<lparr>status = Some (case code of None \<Rightarrow> 301 | Some n \<Rightarrow> (if n = 0 then 301 else n)),
           resp_headers = Some [(''location'', ''/login'')],
           resp_body = ''No fallback response content provided.''\<rparr>" for code
    using redirect_defaulting [where app = "redirect_app ''/login'' code" and req = ?other
        and handler = "redirect_with ''/login'' code" and h = empty_store and f = 0
        and ha = "ha ''/login'' code" and hs = "[]", THEN conjunct2, THEN conjunct1]
    by (simp add: redirect_app_def handler obj fields or_str_def truthy_def login)
  have s3: "sent (respondWithNoRouteFound (redirect_app [] None) ?other empty_store) =
      Inr \<lparr>status = Some 404, resp_headers = Some [],
           resp_body = ''No fallback response content provided.''\<rparr>"
    using redirect_defaulting [where app = "redirect_app [] None" and req = ?other
        and handler = "redirect_with [] None" and h = empty_store and f = 0
        and ha = "ha [] None" and hs = "[]", THEN conjunct2, THEN conjunct1]
    by (simp add: redirect_app_def handler obj fields or_str_def truthy_def)
  have ps: "route_parameters (PlainRoute go_route) ''/go/x'' = Inr [(''where'', Some ''x'')]"
    by (simp add: go_route_def run_defs)
  have s4: "sent (respondToRequest (redirect_app ''/login'' None) ?go ''/go/x''
                    (PlainRoute go_route) True empty_store) =
      Inr \<lparr>status = Some 301, resp_headers = Some [(''location'', ''/login'')],
           resp_body = ''No response content provided.''\<rparr>"
    using redirect_defaulting [where app = "redirect_app ''/login'' None" and req = ?go
        and rq = "?go\<lparr>parameters := [(''where'', Some ''x'')]\<rparr>" and uses = True
        and ps = "[(''where'', Some ''x'')]"
        and req' = "?go\<lparr>parameters := [(''where'', Some ''x'')]\<rparr>" and p = "''/go/x''"
        and rt = "PlainRoute go_route"
        and h = empty_store and f = 0 and ha = "ha ''/login'' None" and hb = "ha ''/login'' None"
        and hs = "[]", THEN conjunct1] ps
    by (simp add: set_matches_def route_handler_def go_route_def redirect_app_def
        handler obj fields or_str_def truthy_def login obj_values_def own_entries_def
        array_index_def)
  have r1: "resolve ?env (redirect_app t code) ?dash empty_store =
      respondToRequest (redirect_app t code) ?dash ''/dashboard''
        (PlainRoute (dashboard_route t code)) False empty_store" for t code
    by (simp add: resolve_def spec_env_defs redirect_app_def request_def obj_get_def Let_def)
  have r2: "resolve ?env (redirect_app t code) ?other empty_store =
      respondWithNoRouteFound (redirect_app t code) ?other empty_store" for t code
    by (simp add: resolve_def spec_env_defs redirect_app_def dashboard_route_def request_def
        obj_get_def obj_values_def own_entries_def array_index_def prototype_members_def
        Let_def)
  show ?thesis
    unfolding r1 r2 using s1 [of None] s1 [of "Some 302"] s2 [of None] s3 s4 ps by simp
qed

text \<open>
  Claim C7 says that \<open>/search?q=a+b&x=\<close> parses to exactly \<open>{q: "a b"}\<close>, the pair
  \<open>x=\<close> being dropped. The code drops a pair only when \<open>query.split("=")[1]\<close> is
  \<open>undefined\<close>, and for \<open>x=\<close> it is the empty string: the pair is kept.
\<close>

theorem empty_value_kept_counterexample:
  "parseQuery ''/search?q=a+b&x='' \<noteq> Inr [(''q'', ''a b'')] \<and>
   parseQuery ''/search?q=a+b&x='' = Inr [(''q'', ''a b''), (''x'', [])]"
  by (simp add: parseQuery_def str_includes_def parseQuery_step_def decodeURIComponent_def
      string_defs)

text \<open>
  Claim C7, as the code has it. A URL without \<open>?\<close> has the empty query. Otherwise the
  suffix after the \<open>?\<close> is split on \<open>&\<close> and each pair on its \<open>=\<close>; a pair with an
  empty key or without \<open>=\<close> is skipped, a pair with an empty value is kept; key and
  value are percent-decoded, the value after every \<open>+\<close> has become a space, and the
  pairs are entered from left to right; a pair that cannot be decoded makes the parse a
  \<open>URIError\<close>. That is the parser in the words of the specification, \<open>query_of_pairs\<close>,
  but for the test of the value. The statement is about a URL with one \<open>?\<close>, no line
  terminator, and at most one \<open>=\<close> in each pair; it says nothing about the others. In
  particular \<open>/search?q=a+b&x=\<close> parses to \<open>{q: "a b", x: ""}\<close>.
\<close>

theorem parseQuery_pairs:
  "(\<not> str_includes u CHR ''?'' \<longrightarrow> parseQuery u = Inr []) \<and>
   (CHR ''?'' \<notin> set pth \<and> CHR ''?'' \<notin> set qs \<and>
    (\<forall>x\<in>set (units (pth @ ''?'' @ qs)). x \<notin> set line_terminators) \<and>
    (\<forall>pair\<in>set (split_on CHR ''&'' qs). equals_signs pair \<le> 1) \<longrightarrow>
      parseQuery (pth @ ''?'' @ qs) = query_of_pairs (split_on CHR ''&'' qs)) \<and>
   kept_pair ''x='' \<and> \<not> kept_pair ''=3'' \<and> \<not> kept_pair ''z'' \<and> \<not> kept_pair [] \<and>
   decoded_pair ''x='' = Inr (''x'', []) \<and>
   decoded_pair ''q=a+b'' = Inr (''q'', ''a b'') \<and>
   decoded_pair ''n=caf%C3%A9'' = Inr (''n'', ''caf'' @ [CHR 0xC3, CHR 0xA9]) \<and>
   decoded_pair ''p=100%'' = Inl URIError \<and>
   parseQuery ''/search?q=a+b&x='' = Inr [(''q'', ''a b''), (''x'', [])]"
proof -
  have a: "\<not> str_includes u CHR ''?'' \<longrightarrow> parseQuery u = Inr []"
    by (simp add: parseQuery_def)
  have b: "CHR ''?'' \<notin> set pth \<and> CHR ''?'' \<notin> set qs \<and>
    (\<forall>x\<in>set (units (pth @ ''?'' @ qs)). x \<notin> set line_terminators) \<and>
    (\<forall>pair\<in>set (split_on CHR ''&'' qs). equals_signs pair \<le> 1) \<longrightarrow>
      parseQuery (pth @ ''?'' @ qs) = query_of_pairs (split_on CHR ''&'' qs)"
  proof (intro impI, elim conjE)
    assume q: "CHR ''?'' \<notin> set qs"
      and dots: "\<forall>x\<in>set (units (pth @ ''?'' @ qs)). x \<notin> set line_terminators"
      and one: "\<forall>pair\<in>set (split_on CHR ''&'' qs). equals_signs pair \<le> 1"
    show "parseQuery (pth @ ''?'' @ qs) = query_of_pairs (split_on CHR ''&'' qs)"
      unfolding parseQuery_suffix [OF q dots] parseQuery_reduce_spec [OF one] query_of_pairs_def
      by (rule refl)
  qed
  have c: "kept_pair ''x=''" "\<not> kept_pair ''=3''" "\<not> kept_pair ''z''" "\<not> kept_pair []"
    by (simp_all add: kept_pair_def pair_key_def)
  have d: "decoded_pair ''x='' = Inr (''x'', [])"
    "decoded_pair ''q=a+b'' = Inr (''q'', ''a b'')"
    by (simp_all add: decoded_pair_def pair_key_def pair_value_def plus_to_space_def
        decode_plain)
  have e: "decoded_pair ''n=caf%C3%A9'' = Inr (''n'', ''caf'' @ [CHR 0xC3, CHR 0xA9])"
    "decoded_pair ''p=100%'' = Inl URIError"
    by code_simp+
  have g: "parseQuery ''/search?q=a+b&x='' = Inr [(''q'', ''a b''), (''x'', [])]"
    by (simp add: parseQuery_def str_includes_def parseQuery_step_def decodeURIComponent_def
        string_defs)
  from a b c d e g show ?thesis by blast
qed

theorem parseQuery_pairs_witness:
  "CHR ''?'' \<notin> set ''/a'' \<and> CHR ''?'' \<notin> set ''k=v&+=1+2&=3&z&k=w&e='' \<and>
   list_all (\<lambda>x. x \<notin> set line_terminators)
     (units (''/a'' @ ''?'' @ ''k=v&+=1+2&=3&z&k=w&e='')) \<and>
   list_all (\<lambda>pair. equals_signs pair \<le> 1) (split_on CHR ''&'' ''k=v&+=1+2&=3&z&k=w&e='') \<and>
   parseQuery ''/a?k=v&+=1+2&=3&z&k=w&e='' = Inr [(''k'', ''w''), (''+'', ''1 2''), (''e'', [])] \<and>
   \<not> str_includes ''/hello'' CHR ''?'' \<and> parseQuery ''/hello'' = Inr []"
proof -
  note T = parseQuery_pairs
  have h1: "CHR ''?'' \<notin> set ''/a''"
    and h2: "CHR ''?'' \<notin> set ''k=v&+=1+2&=3&z&k=w&e=''"
    and h4: "\<forall>pair\<in>set (split_on CHR ''&'' ''k=v&+=1+2&=3&z&k=w&e=''). equals_signs pair \<le> 1"
    and h5: "\<not> str_includes ''/hello'' CHR ''?''"
    by (simp_all add: str_includes_def equals_signs_def)
  have h3: "\<forall>x\<in>set (units (''/a'' @ ''?'' @ ''k=v&+=1+2&=3&z&k=w&e='')). x \<notin> set line_terminators"
    by (simp add: string_defs)
  from T [of _ "''/a''" "''k=v&+=1+2&=3&z&k=w&e=''", THEN conjunct2, THEN conjunct1] h1 h2 h3 h4
  have "parseQuery (''/a'' @ ''?'' @ ''k=v&+=1+2&=3&z&k=w&e='') =
      query_of_pairs (split_on CHR ''&'' ''k=v&+=1+2&=3&z&k=w&e='')"
    by blast
  then have r1: "parseQuery ''/a?k=v&+=1+2&=3&z&k=w&e='' =
      Inr [(''k'', ''w''), (''+'', ''1 2''), (''e'', [])]"
    by (simp add: query_of_pairs_def kept_pair_def pair_key_def pair_value_def decoded_pair_def
        plus_to_space_def decode_plain enter_all_def)
  from T [of "''/hello''", THEN conjunct1] h5
  have r2: "parseQuery ''/hello'' = Inr []"
    by blast
  from h1 h2 h3 h4 h5 r1 r2 show ?thesis
    unfolding list_all_iff by blast
qed

end
